theory Spec2Isabelle
  imports Complex_Main "HOL-Library.Char_ord" "HOL-Library.List_Lexorder"
begin

text \<open>
  A shallow embedding of the core of storybook-shadcn-sync: the string utilities, the story
  parser, the dependency analyzer with its cycle search, the complexity score of the component
  analyzer, the schemas and the registry generator.  The definitions follow the TypeScript
  sources function by function; the properties proved of them are those the specification
  of the repository states.
\<close>

section \<open>Strings and characters\<close>

text \<open>
  A JavaScript string is modelled as a \<^typ>\<open>string\<close>, each \<^typ>\<open>char\<close> standing for the
  UTF-16 code unit with the same number (U+0000 to U+00FF, the Latin-1 range).  The character
  classes below are the ones the regular expressions of the sources use, restricted to that
  range: \<open>[A-Z]\<close>, \<open>[a-z]\<close>, \<open>[0-9]\<close>, \<open>\<bsol>s\<close>, and the letters that
  \<open>String.prototype.toLowerCase\<close> changes.
\<close>

definition code :: "char \<Rightarrow> nat" where
  "code c = of_char c"

definition isUpperAZ :: "char \<Rightarrow> bool" where
  "isUpperAZ c = (65 \<le> code c \<and> code c \<le> 90)"

definition isLowerAZ :: "char \<Rightarrow> bool" where
  "isLowerAZ c = (97 \<le> code c \<and> code c \<le> 122)"

definition isDigit :: "char \<Rightarrow> bool" where
  "isDigit c = (48 \<le> code c \<and> code c \<le> 57)"

definition isAlnum :: "char \<Rightarrow> bool" where
  "isAlnum c = (isLowerAZ c \<or> isUpperAZ c \<or> isDigit c)"

text \<open>\<open>\<bsol>s\<close>: tab, line feed, vertical tab, form feed, carriage return, space, no-break space.\<close>

definition isSpace :: "char \<Rightarrow> bool" where
  "isSpace c = (code c \<in> {9, 10, 11, 12, 13, 32, 160})"

text \<open>
  The code units below 256 that \<open>toLowerCase\<close> changes are \<open>A\<close> to \<open>Z\<close> and the
  Latin-1 capitals U+00C0 to U+00DE without the multiplication sign U+00D7; each moves up by
  32, which sets bit 5 of the code unit.
\<close>

definition hasLowerCase :: "char \<Rightarrow> bool" where
  "hasLowerCase c = (isUpperAZ c \<or> (192 \<le> code c \<and> code c \<le> 222 \<and> code c \<noteq> 215))"

fun setBit5 :: "char \<Rightarrow> char" where
  "setBit5 (Char b0 b1 b2 b3 b4 b5 b6 b7) = Char b0 b1 b2 b3 b4 True b6 b7"

definition toLowerChar :: "char \<Rightarrow> char" where
  "toLowerChar c = (if hasLowerCase c then setBit5 c else c)"

definition toLowerCase :: "string \<Rightarrow> string" where
  "toLowerCase s = map toLowerChar s"

definition startsWith :: "string \<Rightarrow> string \<Rightarrow> bool" where
  "startsWith s p = (take (length p) s = p)"

text \<open>\<open>s.includes(p)\<close>: \<open>p\<close> occurs in \<open>s\<close> as a contiguous substring.\<close>

fun includesStr :: "string \<Rightarrow> string \<Rightarrow> bool" where
  "includesStr [] p = (p = [])"
| "includesStr (c # cs) p = (startsWith (c # cs) p \<or> includesStr cs p)"


section \<open>String utilities (utils)\<close>

text \<open>
  \<open>str.replace(/([a-z])([A-Z])/g, '$1' + sep + '$2')\<close>: the separator goes between a
  lower-case letter and the capital that follows it; the scan goes on after the capital.
\<close>

fun splitCamel :: "char \<Rightarrow> string \<Rightarrow> string" where
  "splitCamel sep (a # b # cs) =
     (if isLowerAZ a \<and> isUpperAZ b then a # sep # b # splitCamel sep cs
      else a # splitCamel sep (b # cs))"
| "splitCamel sep cs = cs"

text \<open>\<open>str.replace(/[...]+/g, rep)\<close> for a character class: every maximal run of characters
  of the class becomes one \<open>rep\<close>.\<close>

function collapseRuns :: "(char \<Rightarrow> bool) \<Rightarrow> char \<Rightarrow> string \<Rightarrow> string" where
  "collapseRuns cls rep [] = []"
| "collapseRuns cls rep (c # cs) =
     (if cls c then rep # collapseRuns cls rep (dropWhile cls cs)
      else c # collapseRuns cls rep cs)"
  by pat_completeness auto
termination
  by (relation "measure (\<lambda>(cls, rep, s). length s)")
     (auto simp: length_dropWhile_le less_Suc_eq_le)

text \<open>The class \<open>[\<bsol>s_]\<close> of \<open>kebabCase\<close> and the class \<open>[-_\<bsol>s]\<close> of \<open>startCase\<close>.\<close>

definition isSepChar :: "char \<Rightarrow> bool" where
  "isSepChar c = (isSpace c \<or> c = CHR ''_'')"

definition isDashSepChar :: "char \<Rightarrow> bool" where
  "isDashSepChar c = (c = CHR ''-'' \<or> c = CHR ''_'' \<or> isSpace c)"

definition kebabCase :: "string \<Rightarrow> string" where
  "kebabCase str = toLowerCase (collapseRuns isSepChar CHR ''-'' (splitCamel CHR ''-'' str))"

text \<open>\<open>\<bsol>w\<close>, and \<open>toUpperCase\<close> on such a character: only \<open>a\<close> to \<open>z\<close> change, bit 5 being
  cleared.\<close>

definition isWordChar :: "char \<Rightarrow> bool" where
  "isWordChar c = (isAlnum c \<or> c = CHR ''_'')"

fun clearBit5 :: "char \<Rightarrow> char" where
  "clearBit5 (Char b0 b1 b2 b3 b4 b5 b6 b7) = Char b0 b1 b2 b3 b4 False b6 b7"

definition upperWordChar :: "char \<Rightarrow> char" where
  "upperWordChar c = (if isLowerAZ c then clearBit5 c else c)"

text \<open>\<open>str.replace(/\<bsol>b\<bsol>w/g, char => char.toUpperCase())\<close>: a word character is
  capitalised when no word character precedes it.\<close>

fun capitalizeWords :: "bool \<Rightarrow> string \<Rightarrow> string" where
  "capitalizeWords afterWord [] = []"
| "capitalizeWords afterWord (c # cs) =
     (if isWordChar c \<and> \<not> afterWord then upperWordChar c else c)
       # capitalizeWords (isWordChar c) cs"

definition trim :: "string \<Rightarrow> string" where
  "trim s = rev (dropWhile isSpace (rev (dropWhile isSpace s)))"

definition startCase :: "string \<Rightarrow> string" where
  "startCase str =
     trim (capitalizeWords False (collapseRuns isDashSepChar CHR '' '' (splitCamel CHR '' '' str)))"

text \<open>\<open>s.split(sep)\<close> for a separator of one character.\<close>

fun splitOn :: "char \<Rightarrow> string \<Rightarrow> string list" where
  "splitOn sep [] = [[]]"
| "splitOn sep (c # cs) =
     (case splitOn sep cs of
        [] \<Rightarrow> [[c]]
      | part # parts \<Rightarrow> if c = sep then [] # part # parts else (c # part) # parts)"


section \<open>Values and syntax trees\<close>

text \<open>
  The values \<open>extractValue\<close> produces.  A number is represented by its rendering
  \<open>String(n)\<close>, which determines it up to the sign of zero.  An object is the list of its
  entries in insertion order.  Objects are modelled without prototypes: the property name
  \<open>__proto__\<close>, which an assignment treats specially, is taken as an ordinary key, and no
  key is inherited.
\<close>

datatype jsvalue =
    VString string
  | VNumber string
  | VBool bool
  | VNull
  | VArray "jsvalue list"
  | VObject "(string \<times> jsvalue) list"

text \<open>Truthiness: \<open>''\<close>, \<open>0\<close>, \<open>NaN\<close>, \<open>false\<close> and \<open>null\<close> are falsy.\<close>

fun truthy :: "jsvalue \<Rightarrow> bool" where
  "truthy (VString s) = (s \<noteq> [])"
| "truthy (VNumber n) = (n \<noteq> ''0'' \<and> n \<noteq> ''NaN'')"
| "truthy (VBool b) = b"
| "truthy VNull = False"
| "truthy (VArray xs) = True"
| "truthy (VObject kvs) = True"

definition truthyOpt :: "jsvalue option \<Rightarrow> bool" where
  "truthyOpt v = (case v of None \<Rightarrow> False | Some x \<Rightarrow> truthy x)"

fun joinWith :: "string \<Rightarrow> string list \<Rightarrow> string" where
  "joinWith sep [] = []"
| "joinWith sep [x] = x"
| "joinWith sep (x # y # ys) = x @ sep @ joinWith sep (y # ys)"

text \<open>
  \<open>String(v)\<close>, \<open>None\<close> when it throws a \<open>TypeError\<close>: an object whose own property
  \<open>toString\<close> is one of these values, so not a function, cannot be converted.  Inside an
  array \<open>null\<close> renders as the empty string.
\<close>

fun jsString :: "jsvalue \<Rightarrow> string option"
  and jsElemStrings :: "jsvalue list \<Rightarrow> string list option"
where
  "jsString (VString s) = Some s"
| "jsString (VNumber n) = Some n"
| "jsString (VBool b) = Some (if b then ''true'' else ''false'')"
| "jsString VNull = Some ''null''"
| "jsString (VArray xs) = map_option (joinWith '','') (jsElemStrings xs)"
| "jsString (VObject kvs) =
     (if map_of kvs ''toString'' = None then Some ''[object Object]'' else None)"
| "jsElemStrings [] = Some []"
| "jsElemStrings (x # xs) =
     (case (if x = VNull then Some [] else jsString x) of
        None \<Rightarrow> None
      | Some s \<Rightarrow> map_option ((#) s) (jsElemStrings xs))"

fun typeofJs :: "jsvalue \<Rightarrow> string" where
  "typeofJs (VString s) = ''string''"
| "typeofJs (VNumber n) = ''number''"
| "typeofJs (VBool b) = ''boolean''"
| "typeofJs v = ''object''"

text \<open>
  Property access \<open>v[k]\<close> (and \<open>v?.[k]\<close>) for the keys the generator reads (\<open>docs\<close>,
  \<open>description\<close>, \<open>component\<close>, \<open>cssVars\<close>): only an object can own them.
\<close>

definition getProp :: "jsvalue \<Rightarrow> string \<Rightarrow> jsvalue option" where
  "getProp v k = (case v of VObject kvs \<Rightarrow> map_of kvs k | _ \<Rightarrow> None)"

text \<open>\<open>obj[key] = value\<close>: an existing key keeps its place, a new key goes last.\<close>

fun setProp :: "(string \<times> 'a) list \<Rightarrow> string \<Rightarrow> 'a \<Rightarrow> (string \<times> 'a) list" where
  "setProp [] k v = [(k, v)]"
| "setProp ((k', v') # kvs) k v = (if k' = k then (k, v) # kvs else (k', v') # setProp kvs k v)"

text \<open>
  The expressions of the TypeScript syntax tree, by the node kinds \<open>extractValue\<close> tells apart.
  \<open>OtherExpression\<close> is every other kind and carries \<open>getText()\<close>.
\<close>

datatype propname = IdentifierName string | StringLiteralName string | OtherName

datatype expr =
    StringLiteral string
  | NumericLiteral string
  | TrueKeyword
  | FalseKeyword
  | NullKeyword
  | ArrayLiteralExpression "expr list"
  | ObjectLiteralExpression "property list"
  | Identifier string
  | OtherExpression string
and property =
    PropertyAssignment propname expr
  | OtherProperty

text \<open>
  \<open>extractValue\<close>.  \<open>Number(text)\<close> is the parameter \<open>num\<close>, which gives the rendering of the
  number a numeric literal denotes.
\<close>

fun extractValue :: "(string \<Rightarrow> string) \<Rightarrow> expr \<Rightarrow> jsvalue"
  and extractProps :: "(string \<Rightarrow> string) \<Rightarrow> property list \<Rightarrow> (string \<times> jsvalue) list \<Rightarrow> (string \<times> jsvalue) list"
  and extractElems :: "(string \<Rightarrow> string) \<Rightarrow> expr list \<Rightarrow> jsvalue list"
where
  "extractValue num (StringLiteral s) = VString s"
| "extractValue num (NumericLiteral t) = VNumber (num t)"
| "extractValue num TrueKeyword = VBool True"
| "extractValue num FalseKeyword = VBool False"
| "extractValue num NullKeyword = VNull"
| "extractValue num (ArrayLiteralExpression es) = VArray (extractElems num es)"
| "extractValue num (ObjectLiteralExpression ps) = VObject (extractProps num ps [])"
| "extractValue num (Identifier s) = VString s"
| "extractValue num (OtherExpression t) = VString t"
| "extractProps num [] obj = obj"
| "extractProps num (PropertyAssignment (IdentifierName k) e # ps) obj =
     extractProps num ps (setProp obj k (extractValue num e))"
| "extractProps num (PropertyAssignment (StringLiteralName k) e # ps) obj =
     extractProps num ps (setProp obj k (extractValue num e))"
| "extractProps num (PropertyAssignment OtherName e # ps) obj = extractProps num ps obj"
| "extractProps num (OtherProperty # ps) obj = extractProps num ps obj"
| "extractElems num [] = []"
| "extractElems num (e # es) = extractValue num e # extractElems num es"

text \<open>
  The nodes \<open>visit\<close> tells apart, each with the fields it reads, and the children
  \<open>ts.forEachChild\<close> walks.  \<open>isExportEquals\<close> is optional in the compiler's tree.  A variable
  declaration has its name when the name is an identifier, and its initializer when it has one.
  An export declaration has the names of its elements when its clause is a list of named exports.
\<close>

datatype VariableDeclaration = VariableDeclaration "string option" "expr option"

datatype nodekind =
    ImportDeclaration expr
  | ExportAssignment "bool option" expr
  | VariableStatement bool "VariableDeclaration list"
  | ExportDeclaration "string list option"
  | OtherNode

datatype tsnode = Node nodekind "tsnode list"


section \<open>The environment\<close>

text \<open>
  Errors are values.  \<open>SyncError code file\<close> is the object \<open>createError\<close> builds (its message
  is left out); \<open>TypeError\<close> and \<open>SyntaxError\<close> are the exceptions the JavaScript runtime
  raises itself.
\<close>

datatype error = SyncError string "string option" | TypeError | SyntaxError

text \<open>
  The library functions the sources call are parameters, collected in one record: Node's
  \<open>path\<close> and \<open>fs\<close> modules (\<open>readFile p = None\<close> stands for a read that throws), the
  TypeScript parser \<open>ts.createSourceFile\<close> (from file name and text to syntax tree), the
  conversion \<open>Number\<close> of a numeric literal's text (as the rendering of the number), and the
  regular-expression engine where a pattern is built at run time (\<open>regexTest re s\<close> is
  \<open>new RegExp(re).test(s)\<close>, \<open>None\<close> when the pattern is not well formed) or is not modelled
  (\<open>propMatchCount s\<close> is the number of matches of \<open>/(\<bsol>w+):\<bsol>s*\<bsol>w+/g\<close> in \<open>s\<close>).
\<close>

record node_env =
  pathDirname :: "string \<Rightarrow> string"
  pathResolve :: "string list \<Rightarrow> string"
  pathJoin :: "string list \<Rightarrow> string"
  posixNormalize :: "string \<Rightarrow> string"
  existsSync :: "string \<Rightarrow> bool"
  readFile :: "string \<Rightarrow> string option"
  numberText :: "string \<Rightarrow> string"
  regexTest :: "string \<Rightarrow> string \<Rightarrow> bool option"
  propMatchCount :: "string \<Rightarrow> nat"
  createSourceFile :: "string \<Rightarrow> string \<Rightarrow> tsnode"

text \<open>\<open>normalizePath\<close>: \<open>path.posix.normalize(filePath.replace(/\<bsol>\<bsol>/g, '/'))\<close>.\<close>

definition normalizePath :: "node_env \<Rightarrow> string \<Rightarrow> string" where
  "normalizePath env filePath =
     posixNormalize env (map (\<lambda>c. if c = CHR 0x5C then CHR ''/'' else c) filePath)"


section \<open>Dependency analyzer\<close>

datatype DependencyType = npm | internal | registry

record DependencyInfo =
  dep_name :: string
  dep_type :: DependencyType
  dep_version :: "string option"
  dep_path :: "string option"

definition extensions :: "string list" where
  "extensions = [''.ts'', ''.tsx'', ''.js'', ''.jsx'', ''.json'']"

definition resolveRelativePath :: "node_env \<Rightarrow> string \<Rightarrow> string \<Rightarrow> string" where
  "resolveRelativePath env importPath fromFile =
     (let fromDir = pathDirname env fromFile;
          resolved = pathResolve env [fromDir, importPath]
      in case find (\<lambda>ext. existsSync env (resolved @ ext)) extensions of
           Some ext \<Rightarrow> normalizePath env (resolved @ ext)
         | None \<Rightarrow>
            (case find (\<lambda>ext. existsSync env (pathJoin env [resolved, ''index'' @ ext])) extensions of
               Some ext \<Rightarrow> normalizePath env (pathJoin env [resolved, ''index'' @ ext])
             | None \<Rightarrow> normalizePath env resolved))"

text \<open>
  \<open>analyzeDependency\<close>.  \<open>getPackageInfo\<close> looks a package manifest up in the file system; its
  outcome is the parameter \<open>packageVersion\<close> (\<open>None\<close>: no manifest, an unreadable one, or one
  without a version).  The version is copied into the record only when it is truthy.
\<close>

definition analyzeDependency ::
  "node_env \<Rightarrow> (string \<Rightarrow> string option) \<Rightarrow> string \<Rightarrow> string \<Rightarrow> DependencyInfo option" where
  "analyzeDependency env packageVersion importPath fromFile =
     (if startsWith importPath ''@storybook/'' then None
      else if startsWith importPath ''.'' then
        Some \<lparr>dep_name = importPath, dep_type = internal, dep_version = None,
              dep_path = Some (resolveRelativePath env importPath fromFile)\<rparr>
      else if startsWith importPath ''@'' \<or> \<not> includesStr importPath ''/'' then
        Some \<lparr>dep_name = importPath, dep_type = npm,
              dep_version = (case packageVersion importPath of
                               Some v \<Rightarrow> if v \<noteq> [] then Some v else None
                             | None \<Rightarrow> None),
              dep_path = None\<rparr>
      else
        Some \<lparr>dep_name = importPath, dep_type = registry, dep_version = None, dep_path = None\<rparr>)"

text \<open>
  The dependency graph is a \<open>Map\<close> from file path to dependency list; it is modelled as the list
  of its entries in insertion order, \<open>graph.get\<close> being \<^const>\<open>map_of\<close>.
\<close>

type_synonym graph = "(string \<times> DependencyInfo list) list"

text \<open>The paths \<open>dfs\<close> follows from a dependency list: \<open>dep.type === 'internal' && dep.path\<close>.\<close>

definition followed :: "DependencyInfo \<Rightarrow> string option" where
  "followed dep =
     (case dep_path dep of
        Some p \<Rightarrow> if dep_type dep = internal \<and> p \<noteq> [] then Some p else None
      | None \<Rightarrow> None)"

definition graphGet :: "graph \<Rightarrow> string \<Rightarrow> DependencyInfo list" where
  "graphGet g file = (case map_of g file of Some deps \<Rightarrow> deps | None \<Rightarrow> [])"

record dfs_state =
  visited :: "string set"
  recursionStack :: "string set"
  cycles :: "string list list"

text \<open>
  \<open>dfs\<close>, with the loop over the dependencies of a file as \<open>dfsDeps\<close>.  The first argument
  bounds the depth of the recursion: \<open>None\<close> is returned when it is used up.
  \<open>path.slice(path.indexOf(file))\<close> is the path from the first occurrence of \<open>file\<close> on.
\<close>

fun dfs :: "nat \<Rightarrow> graph \<Rightarrow> string \<Rightarrow> string list \<Rightarrow> dfs_state \<Rightarrow> dfs_state option"
  and dfsDeps :: "nat \<Rightarrow> graph \<Rightarrow> DependencyInfo list \<Rightarrow> string list \<Rightarrow> dfs_state \<Rightarrow> dfs_state option"
where
  "dfs 0 g file path st = None"
| "dfs (Suc n) g file path st =
     (if file \<in> recursionStack st then
        (if file \<in> set path
         then Some (st\<lparr>cycles := cycles st @ [dropWhile (\<lambda>f. f \<noteq> file) path]\<rparr>)
         else Some st)
      else if file \<in> visited st then Some st
      else
        (case dfsDeps n g (graphGet g file) (path @ [file])
                (st\<lparr>visited := insert file (visited st),
                    recursionStack := insert file (recursionStack st)\<rparr>) of
           None \<Rightarrow> None
         | Some st' \<Rightarrow> Some (st'\<lparr>recursionStack := recursionStack st' - {file}\<rparr>)))"
| "dfsDeps n g [] path st = Some st"
| "dfsDeps n g (dep # deps) path st =
     (case followed dep of
        Some p \<Rightarrow>
          (case dfs n g p path st of
             None \<Rightarrow> None
           | Some st' \<Rightarrow> dfsDeps n g deps path st')
      | None \<Rightarrow> dfsDeps n g deps path st)"

text \<open>The loop over \<open>graph.keys()\<close>.\<close>

fun dfsRoots :: "nat \<Rightarrow> graph \<Rightarrow> string list \<Rightarrow> dfs_state \<Rightarrow> dfs_state option" where
  "dfsRoots n g [] st = Some st"
| "dfsRoots n g (file # files) st =
     (if file \<notin> visited st then
        (case dfs n g file [] st of
           None \<Rightarrow> None
         | Some st' \<Rightarrow> dfsRoots n g files st')
      else dfsRoots n g files st)"

text \<open>Every path the search can reach: the keys of the graph and the paths it follows.\<close>

definition graphNodes :: "graph \<Rightarrow> string list" where
  "graphNodes g = map fst g @ concat (map (\<lambda>(f, deps). List.map_filter followed deps) g)"

definition findCircularDependenciesFuel :: "nat \<Rightarrow> graph \<Rightarrow> string list list option" where
  "findCircularDependenciesFuel n g =
     map_option cycles
       (dfsRoots n g (map fst g) \<lparr>visited = {}, recursionStack = {}, cycles = []\<rparr>)"

text \<open>
  \<open>findCircularDependencies\<close>: the recursion depth never exceeds the number of paths by more
  than one (shown below), so this bound is never used up.
\<close>

definition findCircularDependencies :: "graph \<Rightarrow> string list list option" where
  "findCircularDependencies g = findCircularDependenciesFuel (Suc (length (graphNodes g))) g"



section \<open>Story parser\<close>

record StorybookMeta =
  meta_title :: "jsvalue option"
  meta_component :: "jsvalue option"
  meta_decorators :: "jsvalue option"
  meta_parameters :: "jsvalue option"
  meta_args :: "jsvalue option"
  meta_argTypes :: "jsvalue option"
  meta_tags :: "jsvalue option"

record StorybookStory =
  story_name :: "jsvalue option"
  story_args :: "jsvalue option"
  story_parameters :: "jsvalue option"
  story_decorators :: "jsvalue option"
  story_render :: "jsvalue option"
  story_play :: "jsvalue option"
  story_tags :: "jsvalue option"

record ParsedStoryFile =
  filePath :: string
  meta :: StorybookMeta
  stories :: "(string \<times> StorybookStory) list"
  dependencies :: "string list"
  componentName :: string
  componentPath :: string

definition emptyMeta :: StorybookMeta where
  "emptyMeta = \<lparr>meta_title = None, meta_component = None, meta_decorators = None,
     meta_parameters = None, meta_args = None, meta_argTypes = None, meta_tags = None\<rparr>"

definition emptyStory :: StorybookStory where
  "emptyStory = \<lparr>story_name = None, story_args = None, story_parameters = None,
     story_decorators = None, story_render = None, story_play = None, story_tags = None\<rparr>"

definition setMetaField :: "string \<Rightarrow> jsvalue \<Rightarrow> StorybookMeta \<Rightarrow> StorybookMeta" where
  "setMetaField key v m =
     (if key = ''title'' then m\<lparr>meta_title := Some v\<rparr>
      else if key = ''component'' then m\<lparr>meta_component := Some v\<rparr>
      else if key = ''decorators'' then m\<lparr>meta_decorators := Some v\<rparr>
      else if key = ''parameters'' then m\<lparr>meta_parameters := Some v\<rparr>
      else if key = ''args'' then m\<lparr>meta_args := Some v\<rparr>
      else if key = ''argTypes'' then m\<lparr>meta_argTypes := Some v\<rparr>
      else if key = ''tags'' then m\<lparr>meta_tags := Some v\<rparr>
      else m)"

fun metaProps :: "(string \<Rightarrow> string) \<Rightarrow> property list \<Rightarrow> StorybookMeta \<Rightarrow> StorybookMeta" where
  "metaProps num [] m = m"
| "metaProps num (PropertyAssignment (IdentifierName key) e # ps) m =
     metaProps num ps (setMetaField key (extractValue num e) m)"
| "metaProps num (p # ps) m = metaProps num ps m"

fun extractMeta :: "(string \<Rightarrow> string) \<Rightarrow> expr \<Rightarrow> StorybookMeta" where
  "extractMeta num (ObjectLiteralExpression ps) = metaProps num ps emptyMeta"
| "extractMeta num e = emptyMeta"

definition setStoryField :: "string \<Rightarrow> jsvalue \<Rightarrow> StorybookStory \<Rightarrow> StorybookStory" where
  "setStoryField key v s =
     (if key = ''name'' then s\<lparr>story_name := Some v\<rparr>
      else if key = ''args'' then s\<lparr>story_args := Some v\<rparr>
      else if key = ''parameters'' then s\<lparr>story_parameters := Some v\<rparr>
      else if key = ''decorators'' then s\<lparr>story_decorators := Some v\<rparr>
      else if key = ''render'' then s\<lparr>story_render := Some v\<rparr>
      else if key = ''play'' then s\<lparr>story_play := Some v\<rparr>
      else if key = ''tags'' then s\<lparr>story_tags := Some v\<rparr>
      else s)"

fun storyProps :: "(string \<Rightarrow> string) \<Rightarrow> property list \<Rightarrow> StorybookStory \<Rightarrow> StorybookStory" where
  "storyProps num [] s = s"
| "storyProps num (PropertyAssignment (IdentifierName key) e # ps) s =
     storyProps num ps (setStoryField key (extractValue num e) s)"
| "storyProps num (p # ps) s = storyProps num ps s"

fun extractStory :: "(string \<Rightarrow> string) \<Rightarrow> expr \<Rightarrow> StorybookStory option" where
  "extractStory num (ObjectLiteralExpression ps) = Some (storyProps num ps emptyStory)"
| "extractStory num e = None"


text \<open>
  The state of \<open>parseSourceFile\<close>'s traversal: the variables \<open>meta\<close>, \<open>stories\<close> and
  \<open>dependencies\<close> its closure \<open>visit\<close> assigns.
\<close>

record parse_state =
  p_meta :: "StorybookMeta option"
  p_stories :: "(string \<times> StorybookStory) list"
  p_dependencies :: "string list"

text \<open>\<open>findStoryDeclaration\<close>: the last declaration of the name with an initializer decides.\<close>

fun findInDeclarations ::
  "(string \<Rightarrow> string) \<Rightarrow> string \<Rightarrow> VariableDeclaration list \<Rightarrow> StorybookStory option \<Rightarrow> StorybookStory option" where
  "findInDeclarations num storyName [] story = story"
| "findInDeclarations num storyName (VariableDeclaration (Some name) (Some init) # ds) story =
     findInDeclarations num storyName ds
       (if name = storyName then extractStory num init else story)"
| "findInDeclarations num storyName (d # ds) story = findInDeclarations num storyName ds story"

fun findStoryVisit :: "(string \<Rightarrow> string) \<Rightarrow> string \<Rightarrow> tsnode \<Rightarrow> StorybookStory option \<Rightarrow> StorybookStory option"
  and findStoryVisitAll :: "(string \<Rightarrow> string) \<Rightarrow> string \<Rightarrow> tsnode list \<Rightarrow> StorybookStory option \<Rightarrow> StorybookStory option"
where
  "findStoryVisit num storyName (Node kind children) story =
     findStoryVisitAll num storyName children
       (case kind of
          VariableStatement ex ds \<Rightarrow> findInDeclarations num storyName ds story
        | _ \<Rightarrow> story)"
| "findStoryVisitAll num storyName [] story = story"
| "findStoryVisitAll num storyName (c # cs) story =
     findStoryVisitAll num storyName cs (findStoryVisit num storyName c story)"

definition findStoryDeclaration :: "(string \<Rightarrow> string) \<Rightarrow> tsnode \<Rightarrow> string \<Rightarrow> StorybookStory option" where
  "findStoryDeclaration num sourceFile storyName = findStoryVisit num storyName sourceFile None"

text \<open>The five steps \<open>visit\<close> takes at a node before it walks the children.\<close>

definition visitImport :: "nodekind \<Rightarrow> parse_state \<Rightarrow> parse_state" where
  "visitImport kind st =
     (case kind of
        ImportDeclaration (StringLiteral text) \<Rightarrow> st\<lparr>p_dependencies := p_dependencies st @ [text]\<rparr>
      | _ \<Rightarrow> st)"

definition visitExportAssignment :: "(string \<Rightarrow> string) \<Rightarrow> nodekind \<Rightarrow> parse_state \<Rightarrow> parse_state" where
  "visitExportAssignment num kind st =
     (case kind of
        ExportAssignment isExportEquals expression \<Rightarrow>
          if isExportEquals = Some False then st\<lparr>p_meta := Some (extractMeta num expression)\<rparr> else st
      | _ \<Rightarrow> st)"

definition visitMetaVariable :: "(string \<Rightarrow> string) \<Rightarrow> nodekind \<Rightarrow> parse_state \<Rightarrow> parse_state" where
  "visitMetaVariable num kind st =
     (case kind of
        VariableStatement ex (VariableDeclaration (Some name) (Some init) # ds) \<Rightarrow>
          if name = ''meta'' \<or> includesStr (toLowerCase name) ''meta''
          then st\<lparr>p_meta := Some (extractMeta num init)\<rparr> else st
      | _ \<Rightarrow> st)"

fun exportElements :: "(string \<Rightarrow> string) \<Rightarrow> tsnode \<Rightarrow> string list \<Rightarrow> parse_state \<Rightarrow> parse_state" where
  "exportElements num sourceFile [] st = st"
| "exportElements num sourceFile (storyName # names) st =
     exportElements num sourceFile names
       (case findStoryDeclaration num sourceFile storyName of
          Some story \<Rightarrow> st\<lparr>p_stories := setProp (p_stories st) storyName story\<rparr>
        | None \<Rightarrow> st)"

definition visitExportDeclaration :: "(string \<Rightarrow> string) \<Rightarrow> tsnode \<Rightarrow> nodekind \<Rightarrow> parse_state \<Rightarrow> parse_state" where
  "visitExportDeclaration num sourceFile kind st =
     (case kind of
        ExportDeclaration (Some names) \<Rightarrow> exportElements num sourceFile names st
      | _ \<Rightarrow> st)"

fun exportedDeclarations :: "(string \<Rightarrow> string) \<Rightarrow> VariableDeclaration list \<Rightarrow> parse_state \<Rightarrow> parse_state" where
  "exportedDeclarations num [] st = st"
| "exportedDeclarations num (VariableDeclaration (Some storyName) (Some init) # ds) st =
     exportedDeclarations num ds
       (case extractStory num init of
          Some story \<Rightarrow> st\<lparr>p_stories := setProp (p_stories st) storyName story\<rparr>
        | None \<Rightarrow> st)"
| "exportedDeclarations num (d # ds) st = exportedDeclarations num ds st"

definition visitExportedVariable :: "(string \<Rightarrow> string) \<Rightarrow> nodekind \<Rightarrow> parse_state \<Rightarrow> parse_state" where
  "visitExportedVariable num kind st =
     (case kind of
        VariableStatement hasExportModifier ds \<Rightarrow>
          if hasExportModifier then exportedDeclarations num ds st else st
      | _ \<Rightarrow> st)"

definition visitNode :: "(string \<Rightarrow> string) \<Rightarrow> tsnode \<Rightarrow> nodekind \<Rightarrow> parse_state \<Rightarrow> parse_state" where
  "visitNode num sourceFile kind st =
     visitExportedVariable num kind
       (visitExportDeclaration num sourceFile kind
          (visitMetaVariable num kind
             (visitExportAssignment num kind
                (visitImport kind st))))"

fun visit :: "(string \<Rightarrow> string) \<Rightarrow> tsnode \<Rightarrow> tsnode \<Rightarrow> parse_state \<Rightarrow> parse_state"
  and visitAll :: "(string \<Rightarrow> string) \<Rightarrow> tsnode \<Rightarrow> tsnode list \<Rightarrow> parse_state \<Rightarrow> parse_state"
where
  "visit num sourceFile (Node kind children) st =
     visitAll num sourceFile children (visitNode num sourceFile kind st)"
| "visitAll num sourceFile [] st = st"
| "visitAll num sourceFile (c # cs) st = visitAll num sourceFile cs (visit num sourceFile c st)"

text \<open>\<open>componentStr.match(/([A-Z][a-zA-Z0-9]*)/)\<close>: the leftmost capital and the letters and
  digits that follow it.\<close>

definition firstUpperCamel :: "string \<Rightarrow> string option" where
  "firstUpperCamel s =
     (case dropWhile (\<lambda>c. \<not> isUpperAZ c) s of
        [] \<Rightarrow> None
      | c # cs \<Rightarrow> Some (c # takeWhile isAlnum cs))"

definition extractComponentName :: "jsvalue \<Rightarrow> error + string" where
  "extractComponentName component =
     (case component of
        VString s \<Rightarrow> Inr s
      | _ \<Rightarrow> (case jsString component of
                None \<Rightarrow> Inl TypeError
              | Some componentStr \<Rightarrow>
                  (case firstUpperCamel componentStr of
                     Some m \<Rightarrow> Inr m
                   | None \<Rightarrow> Inr ''UnknownComponent'')))"

definition extractComponentPath :: "string list \<Rightarrow> string \<Rightarrow> string" where
  "extractComponentPath deps name =
     (let relativeDeps = filter (\<lambda>dep. startsWith dep ''.'') deps
      in case find (\<lambda>dep. includesStr (toLowerCase dep) (toLowerCase name)
                           \<or> includesStr dep ''component'') relativeDeps of
           Some dep \<Rightarrow> dep
         | None \<Rightarrow> (case relativeDeps of [] \<Rightarrow> [] | dep # ds \<Rightarrow> dep))"

definition filterDependencies :: "string list \<Rightarrow> string list" where
  "filterDependencies deps =
     filter (\<lambda>dep. \<not> startsWith dep ''@storybook/'' \<and> \<not> (dep = ''react'' \<or> dep = ''react-dom'')) deps"

text \<open>
  \<open>parseSourceFile\<close>, given the syntax tree and its file name.  The result has the file path
  \<open>parseStoryFile\<close> adds to it.
\<close>

definition parseSourceFile :: "(string \<Rightarrow> string) \<Rightarrow> string \<Rightarrow> tsnode \<Rightarrow> error + ParsedStoryFile" where
  "parseSourceFile num fileName sourceFile =
     (let st = visit num sourceFile sourceFile \<lparr>p_meta = None, p_stories = [], p_dependencies = []\<rparr>
      in case p_meta st of
           None \<Rightarrow> Inl (SyncError ''NO_META_EXPORT'' (Some fileName))
         | Some m \<Rightarrow>
             (case (case meta_component m of
                      Some c \<Rightarrow> if truthy c then extractComponentName c else Inr []
                    | None \<Rightarrow> Inr []) of
                Inl e \<Rightarrow> Inl e
              | Inr name \<Rightarrow>
                  Inr \<lparr>filePath = fileName, meta = m, stories = p_stories st,
                       dependencies = filterDependencies (p_dependencies st),
                       componentName = name,
                       componentPath = (if truthyOpt (meta_component m)
                                        then extractComponentPath (p_dependencies st) name
                                        else [])\<rparr>))"


text \<open>\<open>parseStoryFile\<close>: whatever is thrown inside is caught and thrown again as a
  \<open>PARSE_ERROR\<close> for the file.\<close>

definition parseStoryFile :: "node_env \<Rightarrow> string \<Rightarrow> error + ParsedStoryFile" where
  "parseStoryFile env path =
     (let absolutePath = pathResolve env [path]
      in case readFile env absolutePath of
           None \<Rightarrow> Inl (SyncError ''PARSE_ERROR'' (Some path))
         | Some content \<Rightarrow>
             (case parseSourceFile (numberText env) absolutePath
                     (createSourceFile env absolutePath content) of
                Inl e \<Rightarrow> Inl (SyncError ''PARSE_ERROR'' (Some path))
              | Inr result \<Rightarrow> Inr (result\<lparr>filePath := normalizePath env absolutePath\<rparr>)))"

text \<open>The loop of \<open>parseStoryFiles\<close> over the file paths, on the pair \<open>(results, errors)\<close>.\<close>

fun parseLoop ::
  "node_env \<Rightarrow> string list \<Rightarrow> ParsedStoryFile list \<times> error list \<Rightarrow> ParsedStoryFile list \<times> error list" where
  "parseLoop env [] acc = acc"
| "parseLoop env (path # paths) (results, errors) =
     (case parseStoryFile env path of
        Inr result \<Rightarrow> parseLoop env paths (results @ [result], errors)
      | Inl e \<Rightarrow> parseLoop env paths (results, errors @ [e]))"

definition parseStoryFiles :: "node_env \<Rightarrow> string list \<Rightarrow> error + ParsedStoryFile list" where
  "parseStoryFiles env filePaths =
     (let (results, errors) = parseLoop env filePaths ([], [])
      in if length errors > 0 \<and> length results = 0
         then Inl (SyncError ''PARSE_ALL_FAILED'' None)
         else Inr results)"


section \<open>Component analyzer\<close>

record ComponentComplexity =
  fileCount :: nat
  lineCount :: nat
  dependencyCount :: nat
  propCount :: nat
  storyCount :: nat
  score :: int

text \<open>\<open>content.split('\<bsol>n').length\<close>.\<close>

definition countLines :: "string \<Rightarrow> nat" where
  "countLines content = Suc (length (filter (\<lambda>c. c = CHR 0x0A) content))"

text \<open>
  The score of \<open>analyzeComplexity\<close>: \<open>Math.round(Math.min(100, ...))\<close>, on the reals.
  \<open>Math.round\<close> rounds to the nearest integer, a tie going up, as \<^const>\<open>round\<close> does.
  The sum is a whole number of tenths; a double holds the halves exactly and every other sum
  with an error far below a tenth, so the double and the real round to the same integer.
\<close>

definition complexityScore :: "nat \<Rightarrow> nat \<Rightarrow> nat \<Rightarrow> nat \<Rightarrow> nat \<Rightarrow> int" where
  "complexityScore fc lc dc pc sc =
     round (min (100 :: real)
              (real fc * 10 + min (real lc) 1000 / 10 + real dc * 5 + real pc * 2 + real sc * 3))"

definition analyzeComplexity :: "node_env \<Rightarrow> ParsedStoryFile \<Rightarrow> ComponentComplexity" where
  "analyzeComplexity env storyFile =
     (let storyLines = (case readFile env (filePath storyFile) of
                          Some content \<Rightarrow> countLines content
                        | None \<Rightarrow> 100);
          component = (if componentPath storyFile \<noteq> []
                       then readFile env (componentPath storyFile) else None);
          fc = (case component of Some componentContent \<Rightarrow> 2 | None \<Rightarrow> 1);
          lc = (case component of
                  Some componentContent \<Rightarrow> storyLines + countLines componentContent
                | None \<Rightarrow> storyLines);
          dc = length (dependencies storyFile);
          pc = (case component of
                  Some componentContent \<Rightarrow> propMatchCount env componentContent
                | None \<Rightarrow> 0);
          sc = length (stories storyFile)
      in \<lparr>fileCount = fc, lineCount = lc, dependencyCount = dc, propCount = pc,
           storyCount = sc, score = complexityScore fc lc dc pc sc\<rparr>)"


record ComponentFile =
  cf_path :: string
  cf_type :: string
  cf_size :: nat
  cf_exports :: "string list"

datatype RegistryItemType =
    RegistryComponent | RegistryUi | RegistryLib | RegistryHook | RegistryBlock
  | RegistryPage | RegistryFile | RegistryStyle | RegistryTheme

text \<open>The fields of \<open>ComponentAnalysis\<close> the registry generator reads.\<close>

record ComponentAnalysis =
  ca_name :: string
  ca_type :: RegistryItemType
  ca_complexity :: ComponentComplexity
  ca_dependencies :: "DependencyInfo list"
  ca_files :: "ComponentFile list"


section \<open>Schemas\<close>

text \<open>
  The zod schemas, as predicates on values: \<open>safeParse\<close> succeeds exactly when the predicate
  holds.  A field of an object schema is looked up in the object; \<open>None\<close> is the absent field.
\<close>

definition zString :: "jsvalue \<Rightarrow> bool" where
  "zString v = (case v of VString s \<Rightarrow> True | _ \<Rightarrow> False)"

definition zEnum :: "string list \<Rightarrow> jsvalue \<Rightarrow> bool" where
  "zEnum names v = (case v of VString s \<Rightarrow> s \<in> set names | _ \<Rightarrow> False)"

definition zArray :: "(jsvalue \<Rightarrow> bool) \<Rightarrow> jsvalue \<Rightarrow> bool" where
  "zArray elem v = (case v of VArray xs \<Rightarrow> list_all elem xs | _ \<Rightarrow> False)"

definition zRecord :: "(jsvalue \<Rightarrow> bool) \<Rightarrow> jsvalue \<Rightarrow> bool" where
  "zRecord elem v = (case v of VObject kvs \<Rightarrow> list_all (\<lambda>(k, x). elem x) kvs | _ \<Rightarrow> False)"

definition zAny :: "jsvalue \<Rightarrow> bool" where
  "zAny v = True"

definition required :: "(jsvalue \<Rightarrow> bool) \<Rightarrow> jsvalue option \<Rightarrow> bool" where
  "required schema field = (case field of Some v \<Rightarrow> schema v | None \<Rightarrow> False)"

definition optional :: "(jsvalue \<Rightarrow> bool) \<Rightarrow> jsvalue option \<Rightarrow> bool" where
  "optional schema field = (case field of Some v \<Rightarrow> schema v | None \<Rightarrow> True)"

definition isObject :: "jsvalue \<Rightarrow> bool" where
  "isObject v = (case v of VObject kvs \<Rightarrow> True | _ \<Rightarrow> False)"

definition registryTypeNames :: "string list" where
  "registryTypeNames =
     [''registry:component'', ''registry:ui'', ''registry:lib'', ''registry:hook'',
      ''registry:block'', ''registry:page'', ''registry:file'', ''registry:style'',
      ''registry:theme'']"

definition RegistryFileSchema :: "jsvalue \<Rightarrow> bool" where
  "RegistryFileSchema v =
     (isObject v
      \<and> required zString (getProp v ''path'')
      \<and> required (zEnum registryTypeNames) (getProp v ''type'')
      \<and> optional zString (getProp v ''target''))"

definition cssVarsSchema :: "jsvalue \<Rightarrow> bool" where
  "cssVarsSchema v =
     (isObject v
      \<and> optional (zRecord zString) (getProp v ''theme'')
      \<and> optional (zRecord zString) (getProp v ''light'')
      \<and> optional (zRecord zString) (getProp v ''dark''))"

definition tailwindSchema :: "jsvalue \<Rightarrow> bool" where
  "tailwindSchema v = (isObject v \<and> optional (zRecord zAny) (getProp v ''config''))"

definition RegistryItemSchema :: "jsvalue \<Rightarrow> bool" where
  "RegistryItemSchema v =
     (isObject v
      \<and> optional zString (getProp v ''$schema'')
      \<and> required zString (getProp v ''name'')
      \<and> required (zEnum registryTypeNames) (getProp v ''type'')
      \<and> required zString (getProp v ''title'')
      \<and> required zString (getProp v ''description'')
      \<and> optional zString (getProp v ''author'')
      \<and> optional (zArray zString) (getProp v ''dependencies'')
      \<and> optional (zArray zString) (getProp v ''registryDependencies'')
      \<and> required (zArray RegistryFileSchema) (getProp v ''files'')
      \<and> optional cssVarsSchema (getProp v ''cssVars'')
      \<and> optional tailwindSchema (getProp v ''tailwind''))"


section \<open>Registry generator\<close>

datatype RuleCondition = CondFileCount | CondComplexity | CondDependencies

record ComponentTypeRule =
  rule_pattern :: string
  rule_type :: RegistryItemType
  rule_condition :: "RuleCondition option"
  rule_threshold :: "real option"

text \<open>The options of the configuration the generator reads.\<close>

record SyncConfig =
  registryName :: string
  homepage :: "string option"
  componentTypeRules :: "ComponentTypeRule list"
  dependencyMapping :: "(string \<times> string) list"

fun typeName :: "RegistryItemType \<Rightarrow> string" where
  "typeName RegistryComponent = ''registry:component''"
| "typeName RegistryUi = ''registry:ui''"
| "typeName RegistryLib = ''registry:lib''"
| "typeName RegistryHook = ''registry:hook''"
| "typeName RegistryBlock = ''registry:block''"
| "typeName RegistryPage = ''registry:page''"
| "typeName RegistryFile = ''registry:file''"
| "typeName RegistryStyle = ''registry:style''"
| "typeName RegistryTheme = ''registry:theme''"

text \<open>\<open>matchesPattern\<close>: the three replacements that turn the glob into a regular expression,
  and the test.\<close>

fun replaceStarStar :: "string \<Rightarrow> string" where
  "replaceStarStar (a # b # cs) =
     (if a = CHR ''*'' \<and> b = CHR ''*'' then ''.*'' @ replaceStarStar cs
      else a # replaceStarStar (b # cs))"
| "replaceStarStar cs = cs"

definition replaceChar :: "char \<Rightarrow> string \<Rightarrow> string \<Rightarrow> string" where
  "replaceChar c rep s = concat (map (\<lambda>x. if x = c then rep else [x]) s)"

definition globToRegex :: "string \<Rightarrow> string" where
  "globToRegex pattern =
     replaceChar CHR ''?'' ''.'' (replaceChar CHR ''*'' ''[^/]*'' (replaceStarStar pattern))"

definition matchesPattern :: "node_env \<Rightarrow> string \<Rightarrow> string \<Rightarrow> bool option" where
  "matchesPattern env path pattern = regexTest env (globToRegex pattern) path"

definition meetsCondition ::
  "ParsedStoryFile \<Rightarrow> ComponentAnalysis option \<Rightarrow> RuleCondition \<Rightarrow> real \<Rightarrow> bool" where
  "meetsCondition storyFile analysis condition threshold =
     (case condition of
        CondFileCount \<Rightarrow>
          (case analysis of
             Some a \<Rightarrow> real (if length (ca_files a) = 0 then 1 else length (ca_files a)) \<ge> threshold
           | None \<Rightarrow> 1 \<ge> threshold)
      | CondComplexity \<Rightarrow>
          (case analysis of
             Some a \<Rightarrow> real_of_int (score (ca_complexity a)) \<ge> threshold
           | None \<Rightarrow> 0 \<ge> threshold)
      | CondDependencies \<Rightarrow> real (length (dependencies storyFile)) \<ge> threshold)"

text \<open>The loop of \<open>determineItemType\<close> over the configured rules; after the last rule, the
  default.\<close>

fun applyTypeRules ::
  "node_env \<Rightarrow> ParsedStoryFile \<Rightarrow> ComponentAnalysis option \<Rightarrow> ComponentTypeRule list
     \<Rightarrow> error + RegistryItemType" where
  "applyTypeRules env storyFile analysis [] = Inr RegistryComponent"
| "applyTypeRules env storyFile analysis (rule # rules) =
     (case matchesPattern env (filePath storyFile) (rule_pattern rule) of
        None \<Rightarrow> Inl SyntaxError
      | Some False \<Rightarrow> applyTypeRules env storyFile analysis rules
      | Some True \<Rightarrow>
          (case (rule_condition rule, rule_threshold rule) of
             (Some condition, Some threshold) \<Rightarrow>
               if threshold \<noteq> 0 then
                 (if meetsCondition storyFile analysis condition threshold
                  then Inr (rule_type rule)
                  else applyTypeRules env storyFile analysis rules)
               else Inr (rule_type rule)
           | _ \<Rightarrow> Inr (rule_type rule)))"

definition determineItemType ::
  "node_env \<Rightarrow> SyncConfig \<Rightarrow> ParsedStoryFile \<Rightarrow> ComponentAnalysis option \<Rightarrow> error + RegistryItemType" where
  "determineItemType env config storyFile analysis =
     (case analysis of
        Some a \<Rightarrow> Inr (ca_type a)
      | None \<Rightarrow> applyTypeRules env storyFile analysis (componentTypeRules config))"


definition generateItemName :: "string \<Rightarrow> string" where
  "generateItemName name = kebabCase name"

text \<open>\<open>generateTitle\<close>: a truthy title that is not a string has no method \<open>split\<close>.\<close>

definition generateTitle :: "ParsedStoryFile \<Rightarrow> error + string" where
  "generateTitle storyFile =
     (if truthyOpt (meta_title (meta storyFile)) then
        (case meta_title (meta storyFile) of
           Some (VString title) \<Rightarrow>
             (let parts = splitOn CHR ''/'' title
              in Inr (if last parts \<noteq> [] then last parts else componentName storyFile))
         | _ \<Rightarrow> Inl TypeError)
      else Inr (startCase (componentName storyFile)))"

definition optProp :: "jsvalue option \<Rightarrow> string \<Rightarrow> jsvalue option" where
  "optProp v k = (case v of Some x \<Rightarrow> getProp x k | None \<Rightarrow> None)"

definition generateDescription :: "ParsedStoryFile \<Rightarrow> jsvalue" where
  "generateDescription storyFile =
     (let docsParams = optProp (meta_parameters (meta storyFile)) ''docs'';
          fallback = VString (''A '' @ componentName storyFile @ '' component.'')
      in case optProp docsParams ''description'' of
           Some description \<Rightarrow>
             if truthy description then
               (if typeofJs description = ''string'' then description
                else
                  (case (if typeofJs description = ''object''
                         then getProp description ''component'' else None) of
                     Some component \<Rightarrow> if truthy component then component else fallback
                   | None \<Rightarrow> fallback))
             else fallback
         | None \<Rightarrow> fallback)"

definition generateRegistryPath :: "string \<Rightarrow> string \<Rightarrow> string" where
  "generateRegistryPath name fileType =
     (let basePath = ''registry/default/'' @ name
      in if fileType = ''component'' then basePath @ ''/'' @ name @ ''.tsx''
         else if fileType = ''index'' then basePath @ ''/index.ts''
         else if fileType = ''hook'' then basePath @ ''/use-'' @ name @ ''.ts''
         else if fileType = ''lib'' then basePath @ ''/'' @ name @ ''.ts''
         else basePath @ ''/'' @ name @ ''.tsx'')"

fun getFileType :: "RegistryItemType \<Rightarrow> RegistryItemType" where
  "getFileType RegistryBlock = RegistryComponent"
| "getFileType RegistryUi = RegistryUi"
| "getFileType RegistryHook = RegistryHook"
| "getFileType RegistryLib = RegistryLib"
| "getFileType t = RegistryComponent"

definition registryFile :: "string \<Rightarrow> RegistryItemType \<Rightarrow> jsvalue" where
  "registryFile path t = VObject [(''path'', VString path), (''type'', VString (typeName t))]"

definition generateFiles :: "ParsedStoryFile \<Rightarrow> RegistryItemType \<Rightarrow> jsvalue list" where
  "generateFiles storyFile t =
     (let name = kebabCase (componentName storyFile)
      in (if componentPath storyFile \<noteq> []
          then [registryFile (generateRegistryPath name ''component'') (getFileType t)] else [])
         @ (if t = RegistryBlock
            then [registryFile (generateRegistryPath name ''index'') RegistryComponent] else []))"

text \<open>The loop of \<open>generateDependencies\<close>; the rename table is looked up as a map of its own
  entries.\<close>

fun mapDependencies :: "(string \<times> string) list \<Rightarrow> string list \<Rightarrow> string list \<Rightarrow> string list" where
  "mapDependencies mapping [] acc = acc"
| "mapDependencies mapping (dep # deps) acc =
     (if startsWith dep ''.'' then mapDependencies mapping deps acc
      else
        (let mappedDep = (case map_of mapping dep of
                            Some m \<Rightarrow> if m \<noteq> [] then m else dep
                          | None \<Rightarrow> dep)
         in mapDependencies mapping deps
              (if mappedDep \<noteq> [] \<and> mappedDep \<notin> set acc then acc @ [mappedDep] else acc)))"

definition generateDependencies :: "SyncConfig \<Rightarrow> ParsedStoryFile \<Rightarrow> string list" where
  "generateDependencies config storyFile =
     sort (mapDependencies (dependencyMapping config) (dependencies storyFile) [])"

definition commonComponents :: "string list" where
  "commonComponents =
     [''button'', ''input'', ''label'', ''card'', ''dialog'', ''dropdown-menu'',
      ''select'', ''checkbox'', ''radio-group'', ''switch'', ''textarea'',
      ''tooltip'', ''popover'', ''accordion'', ''alert'', ''badge'', ''avatar'']"

fun matchComponents :: "string \<Rightarrow> string list \<Rightarrow> string list \<Rightarrow> string list" where
  "matchComponents depName [] acc = acc"
| "matchComponents depName (component # components) acc =
     matchComponents depName components
       (if includesStr depName component \<and> component \<notin> set acc then acc @ [component] else acc)"

fun collectRegistryDeps :: "string list \<Rightarrow> string list \<Rightarrow> string list" where
  "collectRegistryDeps [] acc = acc"
| "collectRegistryDeps (dep # deps) acc =
     collectRegistryDeps deps (matchComponents (toLowerCase dep) commonComponents acc)"

definition generateRegistryDependencies :: "ParsedStoryFile \<Rightarrow> string list" where
  "generateRegistryDependencies storyFile = sort (collectRegistryDeps (dependencies storyFile) [])"

definition generateCssVars :: "ParsedStoryFile \<Rightarrow> jsvalue option" where
  "generateCssVars storyFile =
     (case optProp (meta_parameters (meta storyFile)) ''cssVars'' of
        Some (VArray xs) \<Rightarrow> Some (VArray xs)
      | Some (VObject kvs) \<Rightarrow> Some (VObject kvs)
      | _ \<Rightarrow> None)"

text \<open>
  \<open>generateRegistryItem\<close>: \<open>Inr None\<close> is the result \<open>null\<close>, \<open>Inl\<close> what is thrown.
\<close>

definition generateRegistryItem ::
  "node_env \<Rightarrow> SyncConfig \<Rightarrow> ParsedStoryFile \<Rightarrow> ComponentAnalysis option \<Rightarrow> error + jsvalue option" where
  "generateRegistryItem env config storyFile analysis =
     (if componentName storyFile = [] then Inr None
      else
        (case determineItemType env config storyFile analysis of
           Inl e \<Rightarrow> Inl e
         | Inr t \<Rightarrow>
            (case generateTitle storyFile of
               Inl e \<Rightarrow> Inl e
             | Inr title \<Rightarrow>
                (let name = generateItemName (componentName storyFile);
                     description = generateDescription storyFile;
                     files = generateFiles storyFile t;
                     deps = generateDependencies config storyFile;
                     registryDeps = generateRegistryDependencies storyFile;
                     fields =
                       [(''$schema'', VString ''https://ui.shadcn.com/schema/registry-item.json''),
                        (''name'', VString name),
                        (''type'', VString (typeName t)),
                        (''title'', VString title),
                        (''description'', description),
                        (''files'', VArray files)]
                       @ (if length deps > 0
                          then [(''dependencies'', VArray (map VString deps))] else [])
                       @ (if length registryDeps > 0
                          then [(''registryDependencies'', VArray (map VString registryDeps))]
                          else []);
                     item = VObject (case generateCssVars storyFile of
                                       Some cssVars \<Rightarrow> setProp fields ''cssVars'' cssVars
                                     | None \<Rightarrow> fields)
                 in if RegistryItemSchema item then Inr (Some item)
                    else Inl (SyncError ''REGISTRY_ITEM_VALIDATION_ERROR''
                                (Some (filePath storyFile)))))))"



section \<open>Reference definitions and example inputs\<close>

text \<open>\<open>clamp(x, lo, hi)\<close>, as the specification uses it.\<close>

definition clamp :: "real \<Rightarrow> real \<Rightarrow> real \<Rightarrow> real" where
  "clamp x lo hi = max lo (min hi x)"




text \<open>The module specifiers of the import declarations of a tree, in pre-order.\<close>

fun importSpecifiers :: "tsnode \<Rightarrow> string list" and importSpecifiersAll :: "tsnode list \<Rightarrow> string list" where
  "importSpecifiers (Node kind children) =
     (case kind of ImportDeclaration (StringLiteral text) \<Rightarrow> [text] | _ \<Rightarrow> [])
       @ importSpecifiersAll children"
| "importSpecifiersAll [] = []"
| "importSpecifiersAll (c # cs) = importSpecifiers c @ importSpecifiersAll cs"

text \<open>The edges of the internal-only subgraph: from a key of the graph to each path \<open>dfs\<close>
  follows from it.\<close>

definition internalEdges :: "graph \<Rightarrow> (string \<times> string) set" where
  "internalEdges g = {(f, p). \<exists>dep \<in> set (graphGet g f). followed dep = Some p}"

text \<open>
  An example project: two story files under \<open>/stories\<close>, one with a \<open>meta\<close> object and a story,
  one with a story only.  Paths are kept as they are, and no other file exists.
\<close>

definition buttonStoryTree :: tsnode where
  "buttonStoryTree =
     Node OtherNode
       [Node (ImportDeclaration (StringLiteral ''@storybook/react'')) [],
        Node (ImportDeclaration (StringLiteral ''react'')) [],
        Node (ImportDeclaration (StringLiteral ''./Button'')) [],
        Node (VariableStatement False
                [VariableDeclaration (Some ''meta'')
                   (Some (ObjectLiteralExpression
                      [PropertyAssignment (IdentifierName ''title'') (StringLiteral ''Components/Button''),
                       PropertyAssignment (IdentifierName ''component'') (Identifier ''Button'')]))]) [],
        Node (ExportAssignment None (Identifier ''meta'')) [],
        Node (VariableStatement True
                [VariableDeclaration (Some ''Primary'')
                   (Some (ObjectLiteralExpression
                      [PropertyAssignment (IdentifierName ''args'')
                         (ObjectLiteralExpression
                            [PropertyAssignment (IdentifierName ''variant'')
                               (StringLiteral ''primary'')])]))]) []]"

definition brokenStoryTree :: tsnode where
  "brokenStoryTree =
     Node OtherNode
       [Node (ImportDeclaration (StringLiteral ''./Card'')) [],
        Node (VariableStatement True
                [VariableDeclaration (Some ''Primary'')
                   (Some (ObjectLiteralExpression []))]) []]"

text \<open>What parsing the first file gives.\<close>

definition buttonStoryFile :: ParsedStoryFile where
  "buttonStoryFile =
     \<lparr>filePath = ''/stories/Button.stories.ts'',
      meta = emptyMeta\<lparr>meta_title := Some (VString ''Components/Button''),
                       meta_component := Some (VString ''Button'')\<rparr>,
      stories = [(''Primary'',
                  emptyStory\<lparr>story_args := Some (VObject [(''variant'', VString ''primary'')])\<rparr>)],
      dependencies = [''./Button''],
      componentName = ''Button'',
      componentPath = ''./Button''\<rparr>"

definition exampleRead :: "string \<Rightarrow> string option" where
  "exampleRead p =
     (if p = ''/stories/Button.stories.ts'' then Some ''button''
      else if p = ''/stories/Broken.stories.ts'' then Some ''broken''
      else None)"

definition exampleParse :: "string \<Rightarrow> string \<Rightarrow> tsnode" where
  "exampleParse fileName content = (if content = ''button'' then buttonStoryTree else brokenStoryTree)"

definition sameText :: "string \<Rightarrow> string" where
  "sameText s = s"

definition noneExists :: "string \<Rightarrow> bool" where
  "noneExists p = False"

text \<open>A regular expression of letters, digits and slashes only matches the strings it occurs
  in; the example rules have such patterns.\<close>

definition literalRegex :: "string \<Rightarrow> string \<Rightarrow> bool option" where
  "literalRegex re s = Some (includesStr s re)"

definition noMatches :: "string \<Rightarrow> nat" where
  "noMatches s = 0"

definition exampleEnv :: node_env where
  "exampleEnv =
     \<lparr>pathDirname = sameText, pathResolve = last, pathJoin = joinWith ''/'',
      posixNormalize = sameText, existsSync = noneExists, readFile = exampleRead,
      numberText = sameText, regexTest = literalRegex, propMatchCount = noMatches,
      createSourceFile = exampleParse\<rparr>"

definition noPackage :: "string \<Rightarrow> string option" where
  "noPackage name = None"

text \<open>Two dependency graphs on the files \<open>A\<close> and \<open>B\<close>: in the first only \<open>A\<close> imports
  \<open>B\<close>, in the second each imports the other.\<close>

definition internalDep :: "string \<Rightarrow> string \<Rightarrow> DependencyInfo" where
  "internalDep name path =
     \<lparr>dep_name = name, dep_type = internal, dep_version = None, dep_path = Some path\<rparr>"

definition npmDep :: "string \<Rightarrow> DependencyInfo" where
  "npmDep name = \<lparr>dep_name = name, dep_type = npm, dep_version = None, dep_path = None\<rparr>"

definition chainGraph :: graph where
  "chainGraph =
     [(''/src/A.ts'', [npmDep ''react'', internalDep ''./B'' ''/src/B.ts'']),
      (''/src/B.ts'', [npmDep ''clsx''])]"

definition mutualGraph :: graph where
  "mutualGraph =
     [(''/src/A.ts'', [npmDep ''react'', internalDep ''./B'' ''/src/B.ts'']),
      (''/src/B.ts'', [internalDep ''./A'' ''/src/A.ts''])]"

text \<open>Three type rules without a threshold condition; the path of the first story file
  matches the last two, the last being the more specific one.\<close>

definition hooksRule :: ComponentTypeRule where
  "hooksRule = \<lparr>rule_pattern = ''hooks'', rule_type = RegistryHook,
                 rule_condition = None, rule_threshold = None\<rparr>"




definition hooksConfig :: SyncConfig where
  "hooksConfig = \<lparr>registryName = ''example'', homepage = None,
                   componentTypeRules = [hooksRule], dependencyMapping = []\<rparr>"





text \<open>Two more story files: the component reference of the first is the property access
  \<open>ui.Button\<close>, that of the second the identifier \<open>button\<close>.\<close>

definition namespacedStoryTree :: tsnode where
  "namespacedStoryTree =
     Node OtherNode
       [Node (ImportDeclaration (StringLiteral ''./ui'')) [],
        Node (VariableStatement False
                [VariableDeclaration (Some ''meta'')
                   (Some (ObjectLiteralExpression
                      [PropertyAssignment (IdentifierName ''component'')
                         (OtherExpression ''ui.Button'')]))]) [],
        Node (ExportAssignment None (Identifier ''meta'')) []]"

definition namespacedStoryFile :: ParsedStoryFile where
  "namespacedStoryFile =
     \<lparr>filePath = ''/stories/Namespaced.stories.ts'',
      meta = emptyMeta\<lparr>meta_component := Some (VString ''ui.Button'')\<rparr>,
      stories = [],
      dependencies = [''./ui''],
      componentName = ''ui.Button'',
      componentPath = ''./ui''\<rparr>"

text \<open>A story file that imports its component through a path alias, not a relative path;
  what parsing it gives; and the registry item generated from that.\<close>

definition aliasStoryTree :: tsnode where
  "aliasStoryTree =
     Node OtherNode
       [Node (ImportDeclaration (StringLiteral ''@storybook/react'')) [],
        Node (ImportDeclaration (StringLiteral ''@/components/ui/button'')) [],
        Node (VariableStatement False
                [VariableDeclaration (Some ''meta'')
                   (Some (ObjectLiteralExpression
                      [PropertyAssignment (IdentifierName ''title'') (StringLiteral ''Components/Button''),
                       PropertyAssignment (IdentifierName ''component'') (Identifier ''Button'')]))]) [],
        Node (ExportAssignment None (Identifier ''meta'')) [],
        Node (VariableStatement True
                [VariableDeclaration (Some ''Primary'')
                   (Some (ObjectLiteralExpression []))]) []]"

definition aliasStoryFile :: ParsedStoryFile where
  "aliasStoryFile =
     \<lparr>filePath = ''/stories/Alias.stories.ts'',
      meta = emptyMeta\<lparr>meta_title := Some (VString ''Components/Button''),
                       meta_component := Some (VString ''Button'')\<rparr>,
      stories = [(''Primary'', emptyStory)],
      dependencies = [''@/components/ui/button''],
      componentName = ''Button'',
      componentPath = []\<rparr>"

definition aliasItem :: jsvalue where
  "aliasItem =
     VObject
       [(''$schema'', VString ''https://ui.shadcn.com/schema/registry-item.json''),
        (''name'', VString ''button''),
        (''type'', VString ''registry:component''),
        (''title'', VString ''Button''),
        (''description'', VString ''A Button component.''),
        (''files'', VArray []),
        (''dependencies'', VArray [VString ''@/components/ui/button'']),
        (''registryDependencies'', VArray [VString ''button''])]"

definition lowerCaseStoryTree :: tsnode where
  "lowerCaseStoryTree =
     Node OtherNode
       [Node (ImportDeclaration (StringLiteral ''./button'')) [],
        Node (VariableStatement False
                [VariableDeclaration (Some ''meta'')
                   (Some (ObjectLiteralExpression
                      [PropertyAssignment (IdentifierName ''component'')
                         (Identifier ''button'')]))]) [],
        Node (ExportAssignment None (Identifier ''meta'')) []]"


section \<open>Properties of the string utilities\<close>

text \<open>The definitions to unfold when a function is run on a concrete input.\<close>

lemmas char_eval = code_def isUpperAZ_def isLowerAZ_def isDigit_def isAlnum_def isSpace_def
  hasLowerCase_def toLowerChar_def toLowerCase_def startsWith_def isSepChar_def isDashSepChar_def
  isWordChar_def upperWordChar_def

lemmas visit_eval = visitNode_def visitImport_def visitExportAssignment_def
  visitMetaVariable_def visitExportDeclaration_def visitExportedVariable_def emptyStory_def
  emptyMeta_def setMetaField_def setStoryField_def findStoryDeclaration_def

lemma exampleEnv_simps:
  "readFile exampleEnv = exampleRead" "pathResolve exampleEnv = last"
  "createSourceFile exampleEnv = exampleParse" "numberText exampleEnv = sameText"
  "posixNormalize exampleEnv = sameText" "regexTest exampleEnv = literalRegex"
  "propMatchCount exampleEnv = noMatches" "existsSync exampleEnv = noneExists"
  "pathDirname exampleEnv = sameText" "pathJoin exampleEnv = joinWith ''/''"
  by (simp_all add: exampleEnv_def)

lemma code_setBit5: "hasLowerCase c \<Longrightarrow> code (setBit5 c) = code c + 32"
proof (cases c)
  case (Char x1 x2 x3 x4 x5 x6 x7 x8)
  assume h: "hasLowerCase c"
  define low :: nat
    where "low = of_bool x1 + 2 * of_bool x2 + 4 * of_bool x3 + 8 * of_bool x4 + 16 * of_bool x5"
  have low: "low \<le> 31"
    unfolding low_def by (cases x1; cases x2; cases x3; cases x4; cases x5; simp)
  have c: "code c = low + 32 * of_bool x6 + 64 * of_bool x7 + 128 * of_bool x8"
    unfolding low_def Char code_def by simp
  have "\<not> x6"
    using h low unfolding hasLowerCase_def isUpperAZ_def c
    by (cases x6; cases x7; cases x8; simp)
  then have "code (setBit5 c) = low + 32 + 64 * of_bool x7 + 128 * of_bool x8"
    unfolding low_def Char code_def by simp
  with c \<open>\<not> x6\<close> show ?thesis by simp
qed

lemma toLowerChar_not_upper: "\<not> isUpperAZ (toLowerChar c)"
  using code_setBit5[of c] by (auto simp: toLowerChar_def isUpperAZ_def hasLowerCase_def)

lemma toLowerChar_idem: "toLowerChar (toLowerChar c) = toLowerChar c"
  using code_setBit5[of c] by (auto simp: toLowerChar_def isUpperAZ_def hasLowerCase_def)

lemma code_inj: "code a = code b \<Longrightarrow> a = b"
  unfolding code_def by (metis char_of_char)

lemma toLowerChar_sep: "isSepChar (toLowerChar c) \<Longrightarrow> isSepChar c"
proof -
  assume a: "isSepChar (toLowerChar c)"
  show ?thesis
  proof (cases "hasLowerCase c")
    case False
    with a show ?thesis by (simp add: toLowerChar_def)
  next
    case True
    then have "code (toLowerChar c) = code c + 32" "65 \<le> code c"
      using code_setBit5[of c] by (auto simp: toLowerChar_def hasLowerCase_def isUpperAZ_def)
    moreover have "code (toLowerChar c) \<in> {9, 10, 11, 12, 13, 32, 160, 95}"
      using a by (auto simp: isSepChar_def isSpace_def code_def)
    ultimately have "code c = 128" by auto
    with True show ?thesis by (simp add: hasLowerCase_def isUpperAZ_def)
  qed
qed

lemma splitCamel_no_upper:
  "\<forall>c \<in> set s. \<not> isUpperAZ c \<Longrightarrow> splitCamel sep s = s"
  by (induction sep s rule: splitCamel.induct) auto

lemma collapseRuns_none:
  "\<forall>c \<in> set s. \<not> cls c \<Longrightarrow> collapseRuns cls rep s = s"
  by (induction s) auto

lemma hyphen_not_sep: "\<not> isSepChar CHR ''-''"
  by (simp add: isSepChar_def isSpace_def code_def)

lemma collapseRuns_out:
  "\<not> cls rep \<Longrightarrow> c \<in> set (collapseRuns cls rep s) \<Longrightarrow> \<not> cls c"
proof (induction cls rep s rule: collapseRuns.induct)
  case (1 cls rep)
  then show ?case by simp
next
  case (2 cls rep d ds)
  then show ?case by (auto split: if_splits)
qed

lemma kebabCase_no_upper: "c \<in> set (kebabCase s) \<Longrightarrow> \<not> isUpperAZ c"
  by (auto simp: kebabCase_def toLowerCase_def toLowerChar_not_upper)

lemma kebabCase_no_sep: "c \<in> set (kebabCase s) \<Longrightarrow> \<not> isSepChar c"
  using collapseRuns_out[of isSepChar "CHR ''-''"] hyphen_not_sep toLowerChar_sep
  by (auto simp: kebabCase_def toLowerCase_def)

lemma toLowerCase_kebabCase: "toLowerCase (kebabCase s) = kebabCase s"
  by (simp add: kebabCase_def toLowerCase_def toLowerChar_idem)

text \<open>The unit tests of the repository for \<open>kebabCase\<close> and \<open>startCase\<close> hold of the
  model.\<close>

lemma utils_tests:
  "kebabCase ''camelCase'' = ''camel-case''"
  "kebabCase ''PascalCase'' = ''pascal-case''"
  "kebabCase ''hello world'' = ''hello-world''"
  "kebabCase ''hello_world'' = ''hello-world''"
  "startCase ''camelCase'' = ''Camel Case''"
  "startCase ''kebab-case'' = ''Kebab Case''"
  by (simp_all add: kebabCase_def startCase_def trim_def char_eval)

text \<open>
  Claim C9.  \<open>kebabCase\<close> is idempotent: applying it to its own result changes nothing.
  The result of the first application holds no capital \<open>A\<close> to \<open>Z\<close>, no white space and no
  underscore, so the two replacements of the second application find nothing to replace, and
  lower-casing a lower-cased string returns it.
\<close>

theorem kebabCase_idempotent: "kebabCase (kebabCase x) = kebabCase x"
proof -
  have "splitCamel CHR ''-'' (kebabCase x) = kebabCase x"
    by (rule splitCamel_no_upper) (simp add: kebabCase_no_upper)
  moreover have "collapseRuns isSepChar CHR ''-'' (kebabCase x) = kebabCase x"
    by (rule collapseRuns_none) (simp add: kebabCase_no_sep)
  ultimately have "kebabCase (kebabCase x) = toLowerCase (kebabCase x)"
    by (simp add: kebabCase_def[of "kebabCase x"])
  then show ?thesis by (simp add: toLowerCase_kebabCase)
qed


section \<open>Properties of the dependency classifier\<close>

lemma startsWith_storybook:
  "startsWith s ''@storybook/'' \<Longrightarrow> startsWith s ''@'' \<and> \<not> startsWith s ''.''"
  by (cases s) (auto simp: startsWith_def)

lemma startsWith_at_dot: "startsWith s ''@'' \<Longrightarrow> \<not> startsWith s ''.''"
  by (cases s) (auto simp: startsWith_def)

text \<open>
  Claim C3, as amended.  \<open>analyzeDependency\<close> drops a specifier exactly when it begins with
  \<open>@storybook/\<close>, and gives every other specifier exactly one kind, the cases being taken in
  the order of the source: internal exactly when it begins with a dot; npm exactly when it is
  neither dropped nor internal, and begins with \<open>@\<close> or holds no slash; registry exactly when
  it begins with neither a dot nor \<open>@\<close> and holds a slash.  The four conditions exclude each
  other and cover every string.
\<close>

theorem analyzeDependency_partition:
  "(analyzeDependency env pv s f = None \<longleftrightarrow> startsWith s ''@storybook/'')
   \<and> (map_option dep_type (analyzeDependency env pv s f) = Some internal \<longleftrightarrow> startsWith s ''.'')
   \<and> (map_option dep_type (analyzeDependency env pv s f) = Some npm \<longleftrightarrow>
        \<not> startsWith s ''@storybook/'' \<and> \<not> startsWith s ''.''
        \<and> (startsWith s ''@'' \<or> \<not> includesStr s ''/''))
   \<and> (map_option dep_type (analyzeDependency env pv s f) = Some registry \<longleftrightarrow>
        \<not> startsWith s ''.'' \<and> \<not> startsWith s ''@'' \<and> includesStr s ''/'')"
  using startsWith_storybook[of s] startsWith_at_dot[of s]
  by (auto simp: analyzeDependency_def)

theorem analyzeDependency_partition_witness:
  "map_option dep_type
     (analyzeDependency exampleEnv noPackage ''lodash'' ''/stories/Button.stories.ts'') = Some npm
   \<and> map_option dep_type
       (analyzeDependency exampleEnv noPackage ''@radix-ui/react-slot'' ''/stories/Button.stories.ts'')
       = Some npm
   \<and> map_option dep_type
       (analyzeDependency exampleEnv noPackage ''./Button'' ''/stories/Button.stories.ts'')
       = Some internal
   \<and> map_option dep_type
       (analyzeDependency exampleEnv noPackage ''components/ui/button'' ''/stories/Button.stories.ts'')
       = Some registry
   \<and> analyzeDependency exampleEnv noPackage ''@storybook/react'' ''/stories/Button.stories.ts''
       = None"
  using analyzeDependency_partition[of exampleEnv noPackage "''lodash''" "''/stories/Button.stories.ts''"]
    analyzeDependency_partition[of exampleEnv noPackage "''@radix-ui/react-slot''" "''/stories/Button.stories.ts''"]
    analyzeDependency_partition[of exampleEnv noPackage "''./Button''" "''/stories/Button.stories.ts''"]
    analyzeDependency_partition[of exampleEnv noPackage "''components/ui/button''" "''/stories/Button.stories.ts''"]
    analyzeDependency_partition[of exampleEnv noPackage "''@storybook/react''" "''/stories/Button.stories.ts''"]
  by (simp add: startsWith_def)

text \<open>
  Claim C3 as stated fails: the specifier \<open>..\<close> is not in the framework namespace and holds no
  slash, so the stated case split gives it the kind npm, and \<open>analyzeDependency\<close> gives it the
  kind internal, because it begins with a dot.
\<close>

theorem analyzeDependency_no_slash_counterexample:
  "\<not> startsWith ''..'' ''@storybook/'' \<and> \<not> includesStr ''..'' ''/''
   \<and> map_option dep_type
       (analyzeDependency exampleEnv noPackage ''..'' ''/stories/Button.stories.ts'') = Some internal
   \<and> map_option dep_type
       (analyzeDependency exampleEnv noPackage ''..'' ''/stories/Button.stories.ts'') \<noteq> Some npm"
  by (simp add: analyzeDependency_def startsWith_def)


section \<open>Properties of batch parsing\<close>



text \<open>
  Claim C10.  For the empty list of file paths \<open>parseStoryFiles\<close> returns the empty list and
  raises nothing: the loop records no error, and the fatal branch needs a recorded error.
\<close>

theorem parseStoryFiles_empty:
  "parseStoryFiles env [] = Inr [] \<and> parseLoop env [] ([], []) = ([], [])"
  by (simp add: parseStoryFiles_def)




lemma button_parse:
  "visit sameText buttonStoryTree buttonStoryTree
     \<lparr>p_meta = None, p_stories = [], p_dependencies = []\<rparr>
   = \<lparr>p_meta = Some (emptyMeta\<lparr>meta_title := Some (VString ''Components/Button''),
                                 meta_component := Some (VString ''Button'')\<rparr>),
      p_stories = [(''Primary'',
                    emptyStory\<lparr>story_args := Some (VObject [(''variant'', VString ''primary'')])\<rparr>)],
      p_dependencies = [''@storybook/react'', ''react'', ''./Button'']\<rparr>"
  by (simp add: buttonStoryTree_def visit_eval char_eval)





section \<open>Properties of the complexity score\<close>

lemma complexityScore_mono:
  "fc \<le> fc' \<Longrightarrow> lc \<le> lc' \<Longrightarrow> dc \<le> dc' \<Longrightarrow> pc \<le> pc' \<Longrightarrow> sc \<le> sc' \<Longrightarrow>
   complexityScore fc lc dc pc sc \<le> complexityScore fc' lc' dc' pc' sc'"
  unfolding complexityScore_def
  by (intro round_mono min.mono add_mono divide_right_mono mult_right_mono) simp_all

lemma complexityScore_clamp:
  "complexityScore fc lc dc pc sc =
     round (clamp (10 * real fc + min (real lc) 1000 / 10 + 5 * real dc + 2 * real pc
                   + 3 * real sc) 0 100)"
proof -
  let ?x = "real fc * 10 + min (real lc) 1000 / 10 + real dc * 5 + real pc * 2 + real sc * 3"
  have "0 \<le> ?x" by simp
  then have m: "max 0 (min 100 ?x) = min 100 ?x" by simp
  have e: "10 * real fc + min (real lc) 1000 / 10 + 5 * real dc + 2 * real pc + 3 * real sc = ?x"
    by (simp only: mult.commute)
  show ?thesis
    unfolding complexityScore_def clamp_def e m by (rule refl)
qed

lemma complexityScore_range:
  "0 \<le> complexityScore fc lc dc pc sc \<and> complexityScore fc lc dc pc sc \<le> 100"
proof -
  let ?x = "min (100 :: real)
              (real fc * 10 + min (real lc) 1000 / 10 + real dc * 5 + real pc * 2 + real sc * 3)"
  have "0 \<le> ?x" by simp
  then have a: "round (0::real) \<le> round ?x" by (rule round_mono)
  have "?x \<le> 100" by simp
  then have b: "round ?x \<le> round (100::real)" by (rule round_mono)
  from a b show ?thesis by (simp add: complexityScore_def)
qed

text \<open>
  Claim C5.  The score \<open>analyzeComplexity\<close> returns is the rounded value of
  \<open>clamp(10 fileCount + min(lineCount, 1000)/10 + 5 dependencyCount + 2 propCount
  + 3 storyCount, 0, 100)\<close> of the five measures it returns; the five measures are counts, so
  not negative.  As a function of the five counts the score lies between 0 and 100, and it does
  not decrease when one count grows and the other four stay.
\<close>

theorem complexityScore_clamped_monotone:
  "score (analyzeComplexity env sf) =
     round (clamp (10 * real (fileCount (analyzeComplexity env sf))
                   + min (real (lineCount (analyzeComplexity env sf))) 1000 / 10
                   + 5 * real (dependencyCount (analyzeComplexity env sf))
                   + 2 * real (propCount (analyzeComplexity env sf))
                   + 3 * real (storyCount (analyzeComplexity env sf))) 0 100)
   \<and> complexityScore fc lc dc pc sc =
       round (clamp (10 * real fc + min (real lc) 1000 / 10 + 5 * real dc + 2 * real pc
                     + 3 * real sc) 0 100)
   \<and> 0 \<le> complexityScore fc lc dc pc sc \<and> complexityScore fc lc dc pc sc \<le> 100
   \<and> (fc \<le> fc' \<longrightarrow> complexityScore fc lc dc pc sc \<le> complexityScore fc' lc dc pc sc)
   \<and> (lc \<le> lc' \<longrightarrow> complexityScore fc lc dc pc sc \<le> complexityScore fc lc' dc pc sc)
   \<and> (dc \<le> dc' \<longrightarrow> complexityScore fc lc dc pc sc \<le> complexityScore fc lc dc' pc sc)
   \<and> (pc \<le> pc' \<longrightarrow> complexityScore fc lc dc pc sc \<le> complexityScore fc lc dc pc' sc)
   \<and> (sc \<le> sc' \<longrightarrow> complexityScore fc lc dc pc sc \<le> complexityScore fc lc dc pc sc')"
proof -
  have s: "score (analyzeComplexity env sf) =
     complexityScore (fileCount (analyzeComplexity env sf)) (lineCount (analyzeComplexity env sf))
       (dependencyCount (analyzeComplexity env sf)) (propCount (analyzeComplexity env sf))
       (storyCount (analyzeComplexity env sf))"
    by (simp add: analyzeComplexity_def Let_def)
  have 1: "score (analyzeComplexity env sf) =
     round (clamp (10 * real (fileCount (analyzeComplexity env sf))
                   + min (real (lineCount (analyzeComplexity env sf))) 1000 / 10
                   + 5 * real (dependencyCount (analyzeComplexity env sf))
                   + 2 * real (propCount (analyzeComplexity env sf))
                   + 3 * real (storyCount (analyzeComplexity env sf))) 0 100)"
    unfolding s by (rule complexityScore_clamp)
  show ?thesis
    using 1 complexityScore_clamp[of fc lc dc pc sc] complexityScore_range[of fc lc dc pc sc]
      complexityScore_mono[of fc fc' lc lc dc dc pc pc sc sc]
      complexityScore_mono[of fc fc lc lc' dc dc pc pc sc sc]
      complexityScore_mono[of fc fc lc lc dc dc' pc pc sc sc]
      complexityScore_mono[of fc fc lc lc dc dc pc pc' sc sc]
      complexityScore_mono[of fc fc lc lc dc dc pc pc sc sc']
    by blast
qed

theorem complexityScore_clamped_monotone_witness:
  "score (analyzeComplexity exampleEnv buttonStoryFile) = 18
   \<and> (1::nat) \<le> 2 \<and> (25::nat) \<le> 35 \<and> (0::nat) \<le> 1 \<and> (3::nat) \<le> 4 \<and> (2::nat) \<le> 30
   \<and> complexityScore 1 25 0 3 2 = 25
   \<and> complexityScore 2 25 0 3 2 = 35
   \<and> complexityScore 1 35 0 3 2 = 26
   \<and> complexityScore 1 25 1 3 2 = 30
   \<and> complexityScore 1 25 0 4 2 = 27
   \<and> complexityScore 1 25 0 3 30 = 100"
  using complexityScore_clamped_monotone[of exampleEnv buttonStoryFile 1 25 0 3 2 2 35 1 4 30]
  by (simp add: analyzeComplexity_def exampleEnv_simps exampleRead_def buttonStoryFile_def
      countLines_def Let_def complexityScore_def round_def)


section \<open>Properties of the type rules\<close>











section \<open>Properties of the story parser\<close>

lemma exportElements_deps:
  "p_dependencies (exportElements num sourceFile names st) = p_dependencies st"
  by (induction names arbitrary: st) (auto split: option.splits)

lemma exportedDeclarations_deps:
  "p_dependencies (exportedDeclarations num ds st) = p_dependencies st"
  by (induction num ds st rule: exportedDeclarations.induct) (auto split: option.splits)

lemma visitImport_deps:
  "p_dependencies (visitImport kind st) =
     p_dependencies st
       @ (case kind of ImportDeclaration (StringLiteral text) \<Rightarrow> [text] | _ \<Rightarrow> [])"
  by (simp add: visitImport_def split: nodekind.splits expr.splits)

lemma visitExportAssignment_deps:
  "p_dependencies (visitExportAssignment num kind st) = p_dependencies st"
  by (simp add: visitExportAssignment_def split: nodekind.splits)

lemma visitMetaVariable_deps:
  "p_dependencies (visitMetaVariable num kind st) = p_dependencies st"
  by (simp add: visitMetaVariable_def
      split: nodekind.splits list.splits VariableDeclaration.splits option.splits)

lemma visitExportDeclaration_deps:
  "p_dependencies (visitExportDeclaration num sourceFile kind st) = p_dependencies st"
  by (simp add: visitExportDeclaration_def exportElements_deps
      split: nodekind.splits option.splits)

lemma visitExportedVariable_deps:
  "p_dependencies (visitExportedVariable num kind st) = p_dependencies st"
  by (simp add: visitExportedVariable_def exportedDeclarations_deps split: nodekind.splits)

lemma visitNode_deps:
  "p_dependencies (visitNode num sourceFile kind st) =
     p_dependencies st
       @ (case kind of ImportDeclaration (StringLiteral text) \<Rightarrow> [text] | _ \<Rightarrow> [])"
  by (simp add: visitNode_def visitImport_deps visitExportAssignment_deps visitMetaVariable_deps
      visitExportDeclaration_deps visitExportedVariable_deps)

lemma visit_deps:
  "p_dependencies (visit num sourceFile t st) = p_dependencies st @ importSpecifiers t"
  "p_dependencies (visitAll num sourceFile ts st) = p_dependencies st @ importSpecifiersAll ts"
  by (induction num sourceFile t st and num sourceFile ts st rule: visit_visitAll.induct)
     (simp_all add: visitNode_deps)

lemma parseSourceFile_fields:
  assumes "parseSourceFile num fileName t = Inr psf"
  shows "dependencies psf =
           filterDependencies
             (p_dependencies (visit num t t \<lparr>p_meta = None, p_stories = [], p_dependencies = []\<rparr>))"
    and "(case meta_component (meta psf) of
            Some c \<Rightarrow> if truthy c then extractComponentName c else Inr []
          | None \<Rightarrow> Inr []) = Inr (componentName psf)"
proof -
  let ?st = "visit num t t \<lparr>p_meta = None, p_stories = [], p_dependencies = []\<rparr>"
  from assms obtain m where m: "p_meta ?st = Some m"
    by (cases "p_meta ?st") (auto simp: parseSourceFile_def Let_def)
  let ?r = "case meta_component m of
              Some c \<Rightarrow> if truthy c then extractComponentName c else Inr []
            | None \<Rightarrow> Inr []"
  from assms m obtain name where n: "?r = Inr name"
    by (cases ?r) (auto simp: parseSourceFile_def Let_def)
  with assms m have
    "psf = \<lparr>filePath = fileName, meta = m, stories = p_stories ?st,
            dependencies = filterDependencies (p_dependencies ?st),
            componentName = name,
            componentPath = (if truthyOpt (meta_component m)
                             then extractComponentPath (p_dependencies ?st) name else [])\<rparr>"
    by (simp add: parseSourceFile_def Let_def)
  with n show
    "dependencies psf = filterDependencies (p_dependencies ?st)"
    "(case meta_component (meta psf) of
        Some c \<Rightarrow> if truthy c then extractComponentName c else Inr []
      | None \<Rightarrow> Inr []) = Inr (componentName psf)"
    by simp_all
qed

lemma button_source:
  "parseSourceFile sameText ''/stories/Button.stories.ts'' buttonStoryTree = Inr buttonStoryFile"
  by (simp add: parseSourceFile_def button_parse truthyOpt_def
      extractComponentName_def extractComponentPath_def filterDependencies_def char_eval
      buttonStoryFile_def Let_def)

text \<open>
  Claim C7, as amended.  When \<open>parseSourceFile\<close> succeeds, the dependency list of its result
  keeps, of the module specifiers of the import declarations of the tree, in pre-order,
  exactly those that neither begin with \<open>@storybook/\<close> nor are \<open>react\<close> or
  \<open>react-dom\<close>.
\<close>

theorem parseSourceFile_dependencies:
  "parseSourceFile num fileName t = Inr psf \<longrightarrow>
   dependencies psf =
     filter (\<lambda>s. \<not> startsWith s ''@storybook/'' \<and> s \<noteq> ''react'' \<and> s \<noteq> ''react-dom'')
       (importSpecifiers t)"
  using parseSourceFile_fields(1)[of num fileName t psf]
  by (simp add: filterDependencies_def visit_deps)

theorem parseSourceFile_dependencies_witness:
  "parseSourceFile sameText ''/stories/Button.stories.ts'' buttonStoryTree = Inr buttonStoryFile
   \<and> importSpecifiers buttonStoryTree = [''@storybook/react'', ''react'', ''./Button'']
   \<and> dependencies buttonStoryFile = [''./Button'']"
  using parseSourceFile_dependencies[of sameText "''/stories/Button.stories.ts''" buttonStoryTree
      buttonStoryFile] button_source
  by (simp add: buttonStoryTree_def buttonStoryFile_def)

text \<open>
  Claim C7 as stated fails: the first example file imports \<open>react\<close>, which is outside the
  namespace \<open>@storybook/\<close>, and the dependency list of the parsed file does not hold it.
\<close>

theorem parseSourceFile_react_counterexample:
  "parseSourceFile sameText ''/stories/Button.stories.ts'' buttonStoryTree = Inr buttonStoryFile
   \<and> ''react'' \<in> set (importSpecifiers buttonStoryTree)
   \<and> \<not> startsWith ''react'' ''@storybook/''
   \<and> ''react'' \<notin> set (dependencies buttonStoryFile)"
  using button_source
  by (simp add: buttonStoryTree_def buttonStoryFile_def startsWith_def)

lemma namespaced_source:
  "parseSourceFile sameText ''/stories/Namespaced.stories.ts'' namespacedStoryTree
     = Inr namespacedStoryFile"
  by (simp add: parseSourceFile_def namespacedStoryTree_def namespacedStoryFile_def visit_eval
      char_eval truthyOpt_def extractComponentName_def extractComponentPath_def
      filterDependencies_def Let_def)

text \<open>
  Claim C6 does not hold of the code.  \<open>extractValue\<close> has made a string of the component
  reference before \<open>extractComponentName\<close> sees it, so the test \<open>typeof component ===
  'string'\<close> returns the text whole and the token match meant for identifiers and property
  accesses is not reached.  For the reference \<open>ui.Button\<close> the component name is
  \<open>ui.Button\<close> (and the item name \<open>ui.button\<close>), where the first upper-camel-case token
  of the text is \<open>Button\<close>; for the reference \<open>button\<close> the name is \<open>button\<close>, where the
  text has no such token and the name ought to be \<open>UnknownComponent\<close>.
\<close>

theorem componentName_whole_reference:
  "parseSourceFile sameText ''/stories/Namespaced.stories.ts'' namespacedStoryTree
     = Inr namespacedStoryFile
   \<and> meta_component (meta namespacedStoryFile) = Some (VString ''ui.Button'')
   \<and> componentName namespacedStoryFile = ''ui.Button''
   \<and> firstUpperCamel ''ui.Button'' = Some ''Button''
   \<and> generateItemName (componentName namespacedStoryFile) = ''ui.button''
   \<and> map_sum id componentName
       (parseSourceFile sameText ''/stories/Lower.stories.ts'' lowerCaseStoryTree)
     = Inr ''button''
   \<and> firstUpperCamel ''button'' = None"
  using namespaced_source
  by (simp add: parseSourceFile_def namespacedStoryFile_def lowerCaseStoryTree_def visit_eval
      char_eval truthyOpt_def extractComponentName_def firstUpperCamel_def Let_def
      generateItemName_def kebabCase_def)


section \<open>Properties of the registry generator\<close>

lemma alias_source:
  "parseSourceFile sameText ''/stories/Alias.stories.ts'' aliasStoryTree = Inr aliasStoryFile"
  by (simp add: parseSourceFile_def aliasStoryTree_def aliasStoryFile_def visit_eval
      char_eval truthyOpt_def extractComponentName_def extractComponentPath_def
      filterDependencies_def Let_def)

lemma alias_schema: "RegistryItemSchema aliasItem"
  by (simp add: RegistryItemSchema_def aliasItem_def isObject_def getProp_def required_def
      optional_def zString_def zEnum_def zArray_def registryTypeNames_def)

lemma alias_name: "kebabCase ''Button'' = ''button''"
  by (simp add: kebabCase_def char_eval)

lemma alias_type: "determineItemType exampleEnv hooksConfig aliasStoryFile None = Inr RegistryComponent"
  by (simp add: determineItemType_def hooksConfig_def hooksRule_def matchesPattern_def exampleEnv_simps
     literalRegex_def globToRegex_def replaceChar_def aliasStoryFile_def startsWith_def)

lemma alias_title: "generateTitle aliasStoryFile = Inr ''Button''"
  by (simp add: generateTitle_def aliasStoryFile_def emptyMeta_def truthyOpt_def)

lemma alias_description: "generateDescription aliasStoryFile = VString ''A Button component.''"
  by (simp add: generateDescription_def aliasStoryFile_def emptyMeta_def optProp_def)

lemma alias_files: "generateFiles aliasStoryFile RegistryComponent = []"
  by (simp add: generateFiles_def aliasStoryFile_def)

lemma alias_deps: "generateDependencies hooksConfig aliasStoryFile = [''@/components/ui/button'']"
  by (simp add: generateDependencies_def hooksConfig_def aliasStoryFile_def startsWith_def)

lemma alias_regdeps: "generateRegistryDependencies aliasStoryFile = [''button'']"
  by (simp add: generateRegistryDependencies_def aliasStoryFile_def commonComponents_def char_eval)

lemma alias_css: "generateCssVars aliasStoryFile = None"
  by (simp add: generateCssVars_def aliasStoryFile_def emptyMeta_def optProp_def)

lemma alias_fields: "componentName aliasStoryFile = ''Button''"
  by (simp add: aliasStoryFile_def)

lemma alias_item:
  "generateRegistryItem exampleEnv hooksConfig aliasStoryFile None =
     (if RegistryItemSchema aliasItem then Inr (Some aliasItem)
      else Inl (SyncError ''REGISTRY_ITEM_VALIDATION_ERROR'' (Some (filePath aliasStoryFile))))"
  by (simp add: generateRegistryItem_def alias_type alias_title alias_description alias_files
      alias_deps alias_regdeps alias_css generateItemName_def alias_name alias_fields Let_def
      aliasItem_def)

text \<open>
  Claim C1 does not hold of the code.  The schema of a registry item asks for an array of
  files and puts no lower bound on its length.  The story file below imports its component
  through a path alias, so its component path is empty and \<open>generateFiles\<close> returns no file;
  the item is generated with the empty files array, passes \<open>RegistryItemSchema\<close>, and is
  returned.
\<close>

theorem generateRegistryItem_empty_files:
  "parseSourceFile sameText ''/stories/Alias.stories.ts'' aliasStoryTree = Inr aliasStoryFile
   \<and> generateRegistryItem exampleEnv hooksConfig aliasStoryFile None = Inr (Some aliasItem)
   \<and> getProp aliasItem ''files'' = Some (VArray [])
   \<and> RegistryItemSchema aliasItem"
  using alias_source alias_schema alias_item
  by (simp add: getProp_def aliasItem_def)


section \<open>Properties of the cycle search\<close>

lemma successively_path_trancl:
  "successively (\<lambda>x y. (x, y) \<in> E) (x # zs @ [y]) \<Longrightarrow> (x, y) \<in> E\<^sup>+"
proof (induction zs arbitrary: x)
  case Nil
  then show ?case by auto
next
  case (Cons z zs)
  then have "(x, z) \<in> E" "(z, y) \<in> E\<^sup>+" by auto
  then show ?case by (rule trancl_into_trancl2)
qed

lemma revisit_cycle:
  assumes "successively (\<lambda>x y. (x, y) \<in> E) (path @ [file])" and "file \<in> set path"
  shows "(file, file) \<in> E\<^sup>+"
proof -
  from assms(2) obtain xs ys where p: "path = xs @ file # ys" by (auto dest: split_list)
  with assms(1) have "successively (\<lambda>x y. (x, y) \<in> E) (xs @ (file # ys @ [file]))" by simp
  then have "successively (\<lambda>x y. (x, y) \<in> E) (file # ys @ [file])"
    by (simp only: successively_append_iff)
  then show ?thesis by (rule successively_path_trancl)
qed

lemma followed_edge:
  "dep \<in> set (graphGet g file) \<Longrightarrow> followed dep = Some p \<Longrightarrow> (file, p) \<in> internalEdges g"
  by (auto simp: internalEdges_def)

lemma dfs_acyclic:
  "acyclic (internalEdges g) \<Longrightarrow> recursionStack st = set path \<Longrightarrow>
   successively (\<lambda>x y. (x, y) \<in> internalEdges g) (path @ [fl]) \<Longrightarrow>
   dfs n g fl path st = Some st' \<Longrightarrow>
   cycles st' = cycles st \<and> recursionStack st' = recursionStack st"
  "acyclic (internalEdges g) \<Longrightarrow> recursionStack st = set path \<Longrightarrow> path \<noteq> [] \<Longrightarrow>
   successively (\<lambda>x y. (x, y) \<in> internalEdges g) path \<Longrightarrow>
   (\<forall>d \<in> set deps. \<forall>p. followed d = Some p \<longrightarrow> (last path, p) \<in> internalEdges g) \<Longrightarrow>
   dfsDeps n g deps path st = Some st' \<Longrightarrow>
   cycles st' = cycles st \<and> recursionStack st' = recursionStack st"
proof (induction n g fl path st and n g deps path st arbitrary: st' and st'
    rule: dfs_dfsDeps.induct)
  case (1 g fl path st)
  then show ?case by simp
next
  case (2 n g fl path st)
  have notin: "fl \<notin> set path"
    using revisit_cycle[OF "2.prems"(3)] "2.prems"(1) by (auto simp: acyclic_def)
  show ?case
  proof (cases "fl \<in> visited st")
    case True
    with notin "2.prems" show ?thesis by simp
  next
    case False
    let ?st1 = "st\<lparr>visited := insert fl (visited st),
                    recursionStack := insert fl (recursionStack st)\<rparr>"
    from False notin "2.prems" obtain st2 where
      d: "dfsDeps n g (graphGet g fl) (path @ [fl]) ?st1 = Some st2"
      and r: "st' = st2\<lparr>recursionStack := recursionStack st2 - {fl}\<rparr>"
      by (auto split: option.splits)
    have "cycles st2 = cycles ?st1 \<and> recursionStack st2 = recursionStack ?st1"
    proof (rule "2.IH"[OF _ _ "2.prems"(1) _ _ _ _ d])
      show "fl \<notin> recursionStack st" using notin "2.prems"(2) by simp
      show "fl \<notin> visited st" by (rule False)
      show "recursionStack ?st1 = set (path @ [fl])" using "2.prems"(2) by simp
      show "path @ [fl] \<noteq> []" by simp
      show "successively (\<lambda>x y. (x, y) \<in> internalEdges g) (path @ [fl])" by (rule "2.prems"(3))
      show "\<forall>d\<in>set (graphGet g fl). \<forall>p. followed d = Some p \<longrightarrow>
              (last (path @ [fl]), p) \<in> internalEdges g"
        by (auto intro: followed_edge)
    qed
    with r notin "2.prems"(2) show ?thesis by auto
  qed
next
  case (3 n g path st)
  then show ?case by simp
next
  case (4 n g dep deps path st)
  show ?case
  proof (cases "followed dep")
    case None
    with "4.prems" "4.IH"(1)[OF None "4.prems"(1,2,3,4)] show ?thesis by simp
  next
    case (Some p)
    with "4.prems"(6) obtain st1 where
      a: "dfs n g p path st = Some st1" and b: "dfsDeps n g deps path st1 = Some st'"
      by (auto split: option.splits)
    have e: "(last path, p) \<in> internalEdges g" using "4.prems"(5) Some by simp
    have s: "successively (\<lambda>x y. (x, y) \<in> internalEdges g) (path @ [p])"
      using "4.prems"(3,4) e by (simp add: successively_append_iff)
    have 1: "cycles st1 = cycles st \<and> recursionStack st1 = recursionStack st"
      by (rule "4.IH"(2)[OF Some "4.prems"(1,2) s a])
    have 2: "cycles st' = cycles st1 \<and> recursionStack st' = recursionStack st1"
      using "4.IH"(3)[OF Some a "4.prems"(1) _ "4.prems"(3,4) _ b] 1 "4.prems"(2,5) by simp
    from 1 2 show ?thesis by simp
  qed
qed

lemma edges_in_nodes:
  "(f, p) \<in> internalEdges g \<Longrightarrow> p \<in> set (graphNodes g)"
proof -
  assume "(f, p) \<in> internalEdges g"
  then obtain dep where d: "dep \<in> set (graphGet g f)" "followed dep = Some p"
    by (auto simp: internalEdges_def)
  show ?thesis
  proof (cases "map_of g f")
    case None
    with d(1) show ?thesis by (simp add: graphGet_def)
  next
    case (Some deps)
    with d(1) have m: "dep \<in> set deps" by (simp add: graphGet_def)
    from Some have "(f, deps) \<in> set g" by (rule map_of_SomeD)
    moreover have "p \<in> set (List.map_filter followed deps)"
      using d(2) m by (auto simp: List.map_filter_def intro!: image_eqI[where x = dep])
    ultimately show ?thesis by (force simp: graphNodes_def)
  qed
qed

lemma card_unvisited_less:
  "finite N \<Longrightarrow> fl \<in> N \<Longrightarrow> fl \<notin> V \<Longrightarrow> card (N - insert fl V) < card (N - V)"
proof -
  assume a: "finite N" "fl \<in> N" "fl \<notin> V"
  have "N - insert fl V = (N - V) - {fl}" by auto
  moreover have "card ((N - V) - {fl}) < card (N - V)"
    using a by (intro card_Diff1_less) auto
  ultimately show ?thesis by simp
qed

lemma card_unvisited_mono:
  "finite N \<Longrightarrow> V \<subseteq> V' \<Longrightarrow> card (N - V') \<le> card (N - V)"
  by (intro card_mono) auto

lemma dfs_total:
  "finite N \<Longrightarrow> fl \<in> N \<Longrightarrow> (\<forall>f p. (f, p) \<in> internalEdges g \<longrightarrow> p \<in> N) \<Longrightarrow>
   card (N - visited st) < n \<Longrightarrow>
   \<exists>st'. dfs n g fl path st = Some st' \<and> visited st \<subseteq> visited st'"
  "finite N \<Longrightarrow> (\<forall>d \<in> set deps. \<forall>p. followed d = Some p \<longrightarrow> p \<in> N) \<Longrightarrow>
   (\<forall>f p. (f, p) \<in> internalEdges g \<longrightarrow> p \<in> N) \<Longrightarrow>
   card (N - visited st) < n \<Longrightarrow>
   \<exists>st'. dfsDeps n g deps path st = Some st' \<and> visited st \<subseteq> visited st'"
proof (induction n g fl path st and n g deps path st rule: dfs_dfsDeps.induct)
  case (1 g fl path st)
  then show ?case by simp
next
  case (2 n g fl path st)
  show ?case
  proof (cases "fl \<in> recursionStack st \<or> fl \<in> visited st")
    case True
    then show ?thesis by auto
  next
    case False
    let ?st1 = "st\<lparr>visited := insert fl (visited st),
                    recursionStack := insert fl (recursionStack st)\<rparr>"
    have c: "card (N - visited ?st1) < n"
      using card_unvisited_less[OF "2.prems"(1,2), of "visited st"] False "2.prems"(4) by simp
    have t: "\<forall>d\<in>set (graphGet g fl). \<forall>p. followed d = Some p \<longrightarrow> p \<in> N"
      using "2.prems"(3) by (auto dest: followed_edge)
    obtain st2 where "dfsDeps n g (graphGet g fl) (path @ [fl]) ?st1 = Some st2"
      and "visited ?st1 \<subseteq> visited st2"
      using "2.IH"[OF _ _ "2.prems"(1) t "2.prems"(3) c] False by auto
    with False show ?thesis by auto
  qed
next
  case (3 n g path st)
  then show ?case by simp
next
  case (4 n g dep deps path st)
  show ?case
  proof (cases "followed dep")
    case None
    with "4.IH"(1)[OF None "4.prems"(1) _ "4.prems"(3,4)] "4.prems"(2) show ?thesis by simp
  next
    case (Some p)
    then have "p \<in> N" using "4.prems"(2) by simp
    then obtain st1 where a: "dfs n g p path st = Some st1" and v: "visited st \<subseteq> visited st1"
      using "4.IH"(2)[OF Some "4.prems"(1) _ "4.prems"(3,4)] by auto
    have c: "card (N - visited st1) < n"
      using card_unvisited_mono[OF "4.prems"(1) v] "4.prems"(4) by simp
    obtain st' where "dfsDeps n g deps path st1 = Some st'" and "visited st1 \<subseteq> visited st'"
      using "4.IH"(3)[OF Some a "4.prems"(1) _ "4.prems"(3) c] "4.prems"(2) by auto
    with a v Some show ?thesis by auto
  qed
qed

lemma dfsRoots_total:
  "finite N \<Longrightarrow> set files \<subseteq> N \<Longrightarrow> (\<forall>f p. (f, p) \<in> internalEdges g \<longrightarrow> p \<in> N) \<Longrightarrow>
   card (N - visited st) < n \<Longrightarrow> \<exists>st'. dfsRoots n g files st = Some st'"
proof (induction files arbitrary: st)
  case Nil
  then show ?case by simp
next
  case (Cons fl files)
  show ?case
  proof (cases "fl \<in> visited st")
    case True
    with Cons show ?thesis by simp
  next
    case False
    obtain st1 where a: "dfs n g fl [] st = Some st1" and v: "visited st \<subseteq> visited st1"
      using dfs_total(1)[OF Cons.prems(1) _ Cons.prems(3,4), of fl "[]"] Cons.prems(2) by auto
    have "card (N - visited st1) < n"
      using card_unvisited_mono[OF Cons.prems(1) v] Cons.prems(4) by simp
    then obtain st' where "dfsRoots n g files st1 = Some st'"
      using Cons.IH[OF Cons.prems(1) _ Cons.prems(3)] Cons.prems(2) by auto
    with a False show ?thesis by simp
  qed
qed

lemma dfsRoots_acyclic:
  "acyclic (internalEdges g) \<Longrightarrow> recursionStack st = {} \<Longrightarrow>
   dfsRoots n g files st = Some st' \<Longrightarrow> cycles st' = cycles st"
proof (induction files arbitrary: st)
  case Nil
  then show ?case by simp
next
  case (Cons fl files)
  show ?case
  proof (cases "fl \<in> visited st")
    case True
    with Cons show ?thesis by simp
  next
    case False
    with Cons.prems(3) obtain st1 where a: "dfs n g fl [] st = Some st1"
      and b: "dfsRoots n g files st1 = Some st'"
      by (auto split: option.splits)
    have "cycles st1 = cycles st \<and> recursionStack st1 = recursionStack st"
      using dfs_acyclic(1)[OF Cons.prems(1) _ _ a] Cons.prems(2) by simp
    with Cons.IH[OF Cons.prems(1) _ b] Cons.prems(2) show ?thesis by simp
  qed
qed

lemma findCircularDependencies_total: "\<exists>cs. findCircularDependencies g = Some cs"
proof -
  let ?N = "set (graphNodes g)"
  let ?st = "\<lparr>visited = {}, recursionStack = {}, cycles = []\<rparr>"
  have "card (?N - visited ?st) < Suc (length (graphNodes g))"
    by (simp add: card_length less_Suc_eq_le)
  moreover have "set (map fst g) \<subseteq> ?N" by (auto simp: graphNodes_def)
  ultimately obtain st' where "dfsRoots (Suc (length (graphNodes g))) g (map fst g) ?st = Some st'"
    using dfsRoots_total[of ?N "map fst g" g ?st] edges_in_nodes by blast
  then show ?thesis
    by (simp add: findCircularDependencies_def findCircularDependenciesFuel_def)
qed

lemma findCircularDependencies_acyclic:
  "acyclic (internalEdges g) \<Longrightarrow> findCircularDependencies g = Some []"
proof -
  assume a: "acyclic (internalEdges g)"
  obtain cs where c: "findCircularDependencies g = Some cs"
    using findCircularDependencies_total by blast
  then obtain st' where
    "dfsRoots (Suc (length (graphNodes g))) g (map fst g)
       \<lparr>visited = {}, recursionStack = {}, cycles = []\<rparr> = Some st'" and "cs = cycles st'"
    by (auto simp: findCircularDependencies_def findCircularDependenciesFuel_def)
  with dfsRoots_acyclic[OF a, of "\<lparr>visited = {}, recursionStack = {}, cycles = []\<rparr>"] c
  show ?thesis by simp
qed

lemma dfsDeps_none:
  "List.map_filter followed deps = [] \<Longrightarrow> dfsDeps n g deps path st = Some st"
  by (induction deps) (auto split: option.splits)

lemma dfsDeps_single:
  "List.map_filter followed deps = [p] \<Longrightarrow> dfsDeps n g deps path st = dfs n g p path st"
  by (induction deps) (auto simp: dfsDeps_none split: option.splits)

lemma two_file_cycle:
  assumes "a \<noteq> b" "List.map_filter followed depsA = [b]" "List.map_filter followed depsB = [a]"
  shows "findCircularDependencies [(a, depsA), (b, depsB)] = Some [[a, b]]"
  using assms
  by (simp add: findCircularDependencies_def findCircularDependenciesFuel_def graphNodes_def
      dfsDeps_single graphGet_def)

lemma chainGraph_edges: "internalEdges chainGraph = {(''/src/A.ts'', ''/src/B.ts'')}"
  by (auto simp: internalEdges_def chainGraph_def graphGet_def followed_def npmDep_def
      internalDep_def split: if_splits)

lemma chainGraph_acyclic: "acyclic (internalEdges chainGraph)"
  by (simp add: chainGraph_edges) (simp add: acyclic_def)

text \<open>
  Claim C4.  \<open>findCircularDependencies\<close> returns on every graph.  It returns the empty list
  when the internal-only subgraph has no cycle.  On the graph of two different files, where
  the one path followed from each file is the other file, it returns the one cycle that lists
  the two files.
\<close>

theorem findCircularDependencies_cycles:
  "(\<exists>cs. findCircularDependencies g = Some cs)
   \<and> (acyclic (internalEdges g) \<longrightarrow> findCircularDependencies g = Some [])
   \<and> (a \<noteq> b \<and> List.map_filter followed depsA = [b] \<and> List.map_filter followed depsB = [a]
       \<longrightarrow> findCircularDependencies [(a, depsA), (b, depsB)] = Some [[a, b]])"
  using findCircularDependencies_total[of g] findCircularDependencies_acyclic[of g]
    two_file_cycle[of a b depsA depsB]
  by blast

theorem findCircularDependencies_cycles_witness:
  "acyclic (internalEdges chainGraph)
   \<and> findCircularDependencies chainGraph = Some []
   \<and> findCircularDependencies mutualGraph = Some [[''/src/A.ts'', ''/src/B.ts'']]"
  using findCircularDependencies_cycles[of chainGraph "''/src/A.ts''" "''/src/B.ts''"
      "[npmDep ''react'', internalDep ''./B'' ''/src/B.ts'']" "[internalDep ''./A'' ''/src/A.ts'']"]
    chainGraph_acyclic
  by (simp add: mutualGraph_def followed_def npmDep_def internalDep_def)

end
